theory Spec2Isabelle
  imports
    Complex_Main
    "HOL-Library.List_Lexorder"
    "HOL-Library.Product_Lexorder"
    "HOL-Library.Option_ord"
    "HOL-Library.Multiset"
begin

section \<open>JavaScript values\<close>

text \<open>
  A JavaScript string is a sequence of UTF-16 code units.  The model has a code unit as
  a natural number (the code units are those below 65536; nothing below uses the
  bound) and writes the string constants of the source through \<open>str\<close>, which gives
  each character of an Isabelle string its code: these constants are Latin-1, where the
  code of a character is its code unit (\<^verbatim>\<open>'Manh\<close>\<open>\<dots>\<close>\<^verbatim>\<open>'\<close> ends in code unit 0xE3).
\<close>

type_synonym jstring = "nat list"

definition str :: "string \<Rightarrow> jstring" where
  "str s = map of_char s"

text \<open>
  The handler of \<^verbatim>\<open>netlify/functions/appointments.js\<close> works on the value that
  \<^verbatim>\<open>JSON.parse\<close> makes of the request body.  Such a value is null, a boolean, a number, a
  string, an array or an object; reading a property that an object does not have gives
  \<^verbatim>\<open>undefined\<close>.  Numbers are the rationals (what the handler does with a number is to
  test it for zero and to hand it on); an object is the list of its keys and values.
\<close>

datatype jsval =
    JUndefined
  | JNull
  | JBool bool
  | JNum rat
  | JStr jstring
  | JArr "jsval list"
  | JObj "(jstring \<times> jsval) list"

datatype js_error =
    SyntaxError   \<comment> \<open>\<^verbatim>\<open>JSON.parse\<close> on a body that is not JSON\<close>
  | TypeError     \<comment> \<open>a property of null read, or a non-function called\<close>
  | ConnectError  \<comment> \<open>\<^verbatim>\<open>client.connect()\<close> rejected\<close>
  | QueryError    \<comment> \<open>\<^verbatim>\<open>client.query(...)\<close> rejected\<close>

fun truthy :: "jsval \<Rightarrow> bool" where
  "truthy JUndefined = False"
| "truthy JNull = False"
| "truthy (JBool b) = b"
| "truthy (JNum n) = (n \<noteq> 0)"
| "truthy (JStr s) = (s \<noteq> [])"
| "truthy (JArr _) = True"
| "truthy (JObj _) = True"

fun nullish :: "jsval \<Rightarrow> bool" where
  "nullish JUndefined = True"
| "nullish JNull = True"
| "nullish _ = False"

fun typeof :: "jsval \<Rightarrow> jstring" where
  "typeof JUndefined = str ''undefined''"
| "typeof JNull = str ''object''"
| "typeof (JBool _) = str ''boolean''"
| "typeof (JNum _) = str ''number''"
| "typeof (JStr _) = str ''string''"
| "typeof (JArr _) = str ''object''"
| "typeof (JObj _) = str ''object''"

text \<open>
  \<^verbatim>\<open>data.key\<close> for a \<^verbatim>\<open>data\<close> that is neither null nor undefined (on those two the
  access throws a TypeError, which the callers below test first).  None of the keys the
  handler reads is a property of a string, number, boolean or array.
\<close>

fun js_get :: "jsval \<Rightarrow> string \<Rightarrow> jsval" where
  "js_get (JObj kvs) k = (case map_of kvs (str k) of None \<Rightarrow> JUndefined | Some v \<Rightarrow> v)"
| "js_get _ k = JUndefined"

text \<open>\<^verbatim>\<open>a || b\<close>\<close>

definition js_or :: "jsval \<Rightarrow> jsval \<Rightarrow> jsval" where
  "js_or a b = (if truthy a then a else b)"

text \<open>\<^verbatim>\<open>[s1, ...].includes(v)\<close> for an array of string constants.\<close>

definition js_includes :: "jstring list \<Rightarrow> jsval \<Rightarrow> bool" where
  "js_includes xs v = (v \<in> set (map JStr xs))"

subsection \<open>Strings\<close>

text \<open>
  \<^verbatim>\<open>String.prototype.trim\<close> removes white space and line terminators from both ends:
  the code units U+0009 to U+000D, U+0020, U+00A0, U+1680, U+2000 to U+200A, U+2028,
  U+2029, U+202F, U+205F, U+3000 and U+FEFF.
\<close>

definition js_whitespace :: "nat \<Rightarrow> bool" where
  "js_whitespace c =
     ((0x9 \<le> c \<and> c \<le> 0xD) \<or> c = 0x20 \<or> c = 0xA0 \<or> c = 0x1680
      \<or> (0x2000 \<le> c \<and> c \<le> 0x200A) \<or> c = 0x2028 \<or> c = 0x2029 \<or> c = 0x202F
      \<or> c = 0x205F \<or> c = 0x3000 \<or> c = 0xFEFF)"

definition trim :: "jstring \<Rightarrow> jstring" where
  "trim s = rev (dropWhile js_whitespace (rev (dropWhile js_whitespace s)))"

text \<open>
  \<^verbatim>\<open>String.prototype.toUpperCase\<close> follows the case table of Unicode, which is the
  engine's and no part of the program: the functions below take it as the parameter
  \<open>upper\<close>, and nothing is assumed of it.
\<close>

text \<open>The string of a value that the caller has tested to be a string.\<close>

fun str_val :: "jsval \<Rightarrow> jstring" where
  "str_val (JStr s) = s"
| "str_val _ = []"

text \<open>\<^verbatim>\<open>s.split(sep)\<close> for a separator of one code unit: never the empty list.\<close>

fun js_split :: "nat \<Rightarrow> jstring \<Rightarrow> jstring list" where
  "js_split sep [] = [[]]"
| "js_split sep (c # cs) =
     (if c = sep then [] # js_split sep cs
      else (case js_split sep cs of
              [] \<Rightarrow> [[c]]
            | p # ps \<Rightarrow> (c # p) # ps))"

section \<open>Validation\<close>

definition msg_plate :: jstring where
  "msg_plate =
     str (''Matr'' @ [CHR 0xED] @ ''cula '' @ [CHR 0xE9] @ '' obrigat'' @ [CHR 0xF3] @ ''ria'')"

definition msg_car :: jstring where
  "msg_car = str (''Modelo do carro '' @ [CHR 0xE9] @ '' obrigat'' @ [CHR 0xF3] @ ''rio'')"

definition msg_service :: jstring where
  "msg_service = str (''Tipo de servi'' @ [CHR 0xE7] @ ''o inv'' @ [CHR 0xE1] @ ''lido'')"

definition msg_locality :: jstring where
  "msg_locality = str (''Localidade '' @ [CHR 0xE9] @ '' obrigat'' @ [CHR 0xF3] @ ''ria'')"

definition msg_status :: jstring where
  "msg_status = str (''Status inv'' @ [CHR 0xE1] @ ''lido'')"

definition msg_period :: jstring where
  "msg_period = str (''Per'' @ [CHR 0xED] @ ''odo inv'' @ [CHR 0xE1] @ ''lido'')"

definition services :: "jstring list" where
  "services = [str ''PB'', str ''LT'', str ''OC'', str ''REP'', str ''POL'']"

definition statuses :: "jstring list" where
  "statuses = [str ''NE'', str ''VE'', str ''ST'']"

definition periods :: "jstring list" where
  "periods = [str (''Manh'' @ [CHR 0xE3]), str ''Tarde'']"

text \<open>
  \<^verbatim>\<open>validateAppointment(data)\<close>: the list \<^verbatim>\<open>errors\<close> after the six tests, in the order
  of the pushes.  On null the first property access throws.
\<close>

definition validateAppointment :: "jsval \<Rightarrow> js_error + jstring list" where
  "validateAppointment data =
     (if nullish data then Inl TypeError
      else Inr (
        (if \<not> truthy (js_get data ''plate'') \<or> typeof (js_get data ''plate'') \<noteq> str ''string''
             \<or> length (trim (str_val (js_get data ''plate''))) = 0
         then [msg_plate] else []) @
        (if \<not> truthy (js_get data ''car'') \<or> typeof (js_get data ''car'') \<noteq> str ''string''
             \<or> length (trim (str_val (js_get data ''car''))) = 0
         then [msg_car] else []) @
        (if \<not> truthy (js_get data ''service'') \<or> \<not> js_includes services (js_get data ''service'')
         then [msg_service] else []) @
        (if \<not> truthy (js_get data ''locality'')
             \<or> typeof (js_get data ''locality'') \<noteq> str ''string''
             \<or> length (trim (str_val (js_get data ''locality''))) = 0
         then [msg_locality] else []) @
        (if \<not> truthy (js_get data ''status'') \<or> \<not> js_includes statuses (js_get data ''status'')
         then [msg_status] else []) @
        (if truthy (js_get data ''period'') \<and> \<not> js_includes periods (js_get data ''period'')
         then [msg_period] else [])))"

section \<open>Normalisation\<close>

record backend =
  b_date :: jsval
  b_period :: jsval
  b_plate :: jsval
  b_car :: jsval
  b_service :: jsval
  b_locality :: jsval
  b_status :: jsval
  b_notes :: jsval
  b_extra :: jsval
  b_sort_index :: jsval

text \<open>
  \<^verbatim>\<open>v?.trim()\<close> and \<^verbatim>\<open>v?.toUpperCase().trim()\<close>: undefined on null and undefined, the
  method on a string, and a TypeError on anything else, which has no such method to call.
\<close>

fun opt_trim :: "jsval \<Rightarrow> js_error + jsval" where
  "opt_trim JUndefined = Inr JUndefined"
| "opt_trim JNull = Inr JUndefined"
| "opt_trim (JStr s) = Inr (JStr (trim s))"
| "opt_trim _ = Inl TypeError"

fun opt_upper_trim :: "(jstring \<Rightarrow> jstring) \<Rightarrow> jsval \<Rightarrow> js_error + jsval" where
  "opt_upper_trim upper JUndefined = Inr JUndefined"
| "opt_upper_trim upper JNull = Inr JUndefined"
| "opt_upper_trim upper (JStr s) = Inr (JStr (trim (upper s)))"
| "opt_upper_trim upper _ = Inl TypeError"

text \<open>
  \<^verbatim>\<open>transformToBackend(data)\<close>, with the engine's \<^verbatim>\<open>toUpperCase\<close> as \<open>upper\<close>.  The five
  properties that can throw are computed first; whichever throws, the error is the same
  TypeError.
\<close>

definition transformToBackend :: "(jstring \<Rightarrow> jstring) \<Rightarrow> jsval \<Rightarrow> js_error + backend" where
  "transformToBackend upper data =
     (if nullish data then Inl TypeError
      else case opt_upper_trim upper (js_get data ''plate'') of Inl e \<Rightarrow> Inl e | Inr plate \<Rightarrow>
           case opt_trim (js_get data ''car'') of Inl e \<Rightarrow> Inl e | Inr car \<Rightarrow>
           case opt_trim (js_get data ''locality'') of Inl e \<Rightarrow> Inl e | Inr locality \<Rightarrow>
           case opt_trim (js_get data ''notes'') of Inl e \<Rightarrow> Inl e | Inr notes \<Rightarrow>
           case opt_trim (js_get data ''extra'') of Inl e \<Rightarrow> Inl e | Inr extra \<Rightarrow>
           Inr \<lparr> b_date = js_or (js_get data ''date'') JNull,
                 b_period = js_or (js_get data ''period'') JNull,
                 b_plate = plate,
                 b_car = car,
                 b_service = js_get data ''service'',
                 b_locality = locality,
                 b_status = js_or (js_get data ''status'') (JStr (str ''NE'')),
                 b_notes = js_or notes JNull,
                 b_extra = js_or extra JNull,
                 b_sort_index =
                   js_or (js_or (js_get data ''sortIndex'') (js_get data ''sort_index''))
                     (JNum 1) \<rparr>)"

section \<open>The appointments table\<close>

text \<open>
  The statements of the handler name thirteen columns.  A row holds one value, or NULL
  (\<open>None\<close>), in each; \<open>'d\<close> is the type of the \<^verbatim>\<open>Date\<close> objects that the driver makes
  of the \<^verbatim>\<open>date\<close> column, in the order of the column.
\<close>

record 'd row =
  r_id :: nat
  r_date :: "'d option"
  r_period :: "jstring option"
  r_plate :: "jstring option"
  r_car :: "jstring option"
  r_service :: "jstring option"
  r_locality :: "jstring option"
  r_status :: "jstring option"
  r_notes :: "jstring option"
  r_extra :: "jstring option"
  r_sort_index :: "int option"
  r_created_at :: nat
  r_updated_at :: nat

text \<open>
  The declaration of the table is not in the repository, so what it decides is a
  parameter of the model: which texts name an \<^verbatim>\<open>id\<close>, which values the \<^verbatim>\<open>date\<close> and
  \<^verbatim>\<open>sort_index\<close> columns take for a statement parameter (\<open>None\<close>: the statement fails),
  and the text that \<^verbatim>\<open>toISOString()\<close> gives for a \<^verbatim>\<open>Date\<close> of the \<^verbatim>\<open>date\<close> column.
\<close>

record 'd table_decl =
  id_in :: "jstring \<Rightarrow> nat option"
  date_in :: "jsval \<Rightarrow> 'd option"
  int_in :: "jsval \<Rightarrow> int option"
  toISOString :: "'d \<Rightarrow> jstring"

text \<open>
  Modelled from the spec: the table itself, which the repository does not declare.  The
  spec has \<^verbatim>\<open>period\<close>, \<^verbatim>\<open>plate\<close>, \<^verbatim>\<open>car\<close>, \<^verbatim>\<open>service\<close>, \<^verbatim>\<open>locality\<close>, \<^verbatim>\<open>status\<close>,
  \<^verbatim>\<open>notes\<close> and \<^verbatim>\<open>extra\<close> as texts, \<^verbatim>\<open>id\<close> as a server-generated unique identifier and
  \<^verbatim>\<open>createdAt\<close>, \<^verbatim>\<open>updatedAt\<close> as server-managed timestamps.  A text column takes a
  string as it is and null or undefined as NULL; no other value reaches a text column
  from the handler, and the model lets the statement fail on one.  A new row gets an
  \<^verbatim>\<open>id\<close> that no row of the table has, and the time of the statement in both timestamps.
\<close>

fun text_in :: "jsval \<Rightarrow> jstring option option" where
  "text_in (JStr s) = Some (Some s)"
| "text_in JNull = Some None"
| "text_in JUndefined = Some None"
| "text_in _ = None"

definition date_col :: "'d table_decl \<Rightarrow> jsval \<Rightarrow> 'd option option" where
  "date_col T v = (if nullish v then Some None else map_option Some (date_in T v))"

definition int_col :: "'d table_decl \<Rightarrow> jsval \<Rightarrow> int option option" where
  "int_col T v = (if nullish v then Some None else map_option Some (int_in T v))"

definition fresh_id :: "'d row list \<Rightarrow> nat" where
  "fresh_id rows = Suc (fold max (map r_id rows) 0)"

text \<open>
  The ten columns that both INSERT and UPDATE set from the parameters \<^verbatim>\<open>$1\<close> to
  \<^verbatim>\<open>$10\<close>: the change they make to a row, if the table takes every parameter.
\<close>

definition set_columns :: "'d table_decl \<Rightarrow> backend \<Rightarrow> ('d row \<Rightarrow> 'd row) option" where
  "set_columns T b =
     Option.bind (date_col T (b_date b)) (\<lambda>c_date.
     Option.bind (text_in (b_period b)) (\<lambda>c_period.
     Option.bind (text_in (b_plate b)) (\<lambda>c_plate.
     Option.bind (text_in (b_car b)) (\<lambda>c_car.
     Option.bind (text_in (b_service b)) (\<lambda>c_service.
     Option.bind (text_in (b_locality b)) (\<lambda>c_locality.
     Option.bind (text_in (b_status b)) (\<lambda>c_status.
     Option.bind (text_in (b_notes b)) (\<lambda>c_notes.
     Option.bind (text_in (b_extra b)) (\<lambda>c_extra.
     Option.bind (int_col T (b_sort_index b)) (\<lambda>c_sort_index.
       Some (\<lambda>r. r\<lparr> r_date := c_date, r_period := c_period, r_plate := c_plate,
                     r_car := c_car, r_service := c_service, r_locality := c_locality,
                     r_status := c_status, r_notes := c_notes, r_extra := c_extra,
                     r_sort_index := c_sort_index \<rparr>)))))))))))"

text \<open>
  What the program finds around it: the configuration, the engine's \<^verbatim>\<open>toUpperCase\<close>,
  whether the server takes the connection and whether it answers, and its clock.
\<close>

record env =
  NODE_ENV :: "jstring option"            \<comment> \<open>\<^verbatim>\<open>process.env.NODE_ENV\<close>\<close>
  toUpperCase :: "jstring \<Rightarrow> jstring"   \<comment> \<open>\<^verbatim>\<open>String.prototype.toUpperCase\<close>\<close>
  connects :: bool               \<comment> \<open>\<^verbatim>\<open>client.connect()\<close> resolves\<close>
  answers :: bool                \<comment> \<open>the server answers the statement sent to it\<close>
  CURRENT_TIMESTAMP :: nat       \<comment> \<open>the time of the statement\<close>

text \<open>
  \<^verbatim>\<open>INSERT INTO appointments (...) VALUES ($1, ..., $10) RETURNING *\<close>: the new row and
  the table with it.  The statement names ten columns; the other three have the values
  that the table gives them.
\<close>

definition new_row :: "env \<Rightarrow> 'd row list \<Rightarrow> 'd row" where
  "new_row env rows =
     \<lparr> r_id = fresh_id rows, r_date = None, r_period = None, r_plate = None, r_car = None,
       r_service = None, r_locality = None, r_status = None, r_notes = None,
       r_extra = None, r_sort_index = None,
       r_created_at = CURRENT_TIMESTAMP env, r_updated_at = CURRENT_TIMESTAMP env \<rparr>"

definition insert_row ::
  "'d table_decl \<Rightarrow> env \<Rightarrow> 'd row list \<Rightarrow> backend \<Rightarrow> js_error + ('d row \<times> 'd row list)" where
  "insert_row T env rows b =
     (if \<not> answers env then Inl QueryError
      else case set_columns T b of
             None \<Rightarrow> Inl QueryError
           | Some f \<Rightarrow> (let r = f (new_row env rows) in Inr (r, rows @ [r])))"

text \<open>
  \<^verbatim>\<open>UPDATE appointments SET ..., updated_at = CURRENT_TIMESTAMP WHERE id = $11 RETURNING *\<close>:
  the rows it changed and the table after it.
\<close>

definition update_rows ::
  "'d table_decl \<Rightarrow> env \<Rightarrow> 'd row list \<Rightarrow> backend \<Rightarrow> jstring
     \<Rightarrow> js_error + ('d row list \<times> 'd row list)" where
  "update_rows T env rows b appointmentId =
     (if \<not> answers env then Inl QueryError
      else case set_columns T b of
             None \<Rightarrow> Inl QueryError
           | Some f \<Rightarrow>
               (case id_in T appointmentId of
                  None \<Rightarrow> Inl QueryError
                | Some i \<Rightarrow>
                    (let g = (\<lambda>r. (f r)\<lparr> r_updated_at := CURRENT_TIMESTAMP env \<rparr>)
                     in Inr (map g (filter (\<lambda>r. r_id r = i) rows),
                             map (\<lambda>r. if r_id r = i then g r else r) rows))))"

text \<open>\<^verbatim>\<open>DELETE FROM appointments WHERE id = $1 RETURNING *\<close>\<close>

definition delete_rows ::
  "'d table_decl \<Rightarrow> env \<Rightarrow> 'd row list \<Rightarrow> jstring
     \<Rightarrow> js_error + ('d row list \<times> 'd row list)" where
  "delete_rows T env rows appointmentId =
     (if \<not> answers env then Inl QueryError
      else case id_in T appointmentId of
             None \<Rightarrow> Inl QueryError
           | Some i \<Rightarrow> Inr (filter (\<lambda>r. r_id r = i) rows, filter (\<lambda>r. r_id r \<noteq> i) rows))"

text \<open>
  \<^verbatim>\<open>SELECT * FROM appointments ORDER BY CASE WHEN date IS NULL THEN 1 ELSE 0 END,
  date ASC, period ASC, sort_index ASC\<close>.  An ascending column puts NULL after every
  value; texts are compared code unit by code unit.  Rows that agree on the whole key
  come in the order of the table (the server may return them in any order).
\<close>

definition asc :: "'a option \<Rightarrow> bool \<times> 'a option" where
  "asc c = (c = None, c)"

definition order_key ::
  "'d row \<Rightarrow> nat \<times> (bool \<times> 'd option) \<times> (bool \<times> jstring option) \<times> (bool \<times> int option)" where
  "order_key r =
     (if r_date r = None then 1 else 0, asc (r_date r), asc (r_period r), asc (r_sort_index r))"

definition select_rows :: "env \<Rightarrow> ('d::linorder) row list \<Rightarrow> js_error + 'd row list" where
  "select_rows env rows =
     (if \<not> answers env then Inl QueryError else Inr (sort_key order_key rows))"

section \<open>Responses\<close>

record entity =
  e_id :: nat
  e_date :: "jstring option"
  e_period :: "jstring option"
  e_plate :: "jstring option"
  e_car :: "jstring option"
  e_service :: "jstring option"
  e_locality :: "jstring option"
  e_status :: "jstring option"
  e_notes :: "jstring option"
  e_extra :: "jstring option"
  e_sortIndex :: "int option"
  e_createdAt :: nat
  e_updatedAt :: nat

text \<open>\<^verbatim>\<open>transformToFrontend(row)\<close>\<close>

definition transformToFrontend :: "'d table_decl \<Rightarrow> 'd row \<Rightarrow> entity" where
  "transformToFrontend T row =
     \<lparr> e_id = r_id row,
       e_date = (case r_date row of
                   Some d \<Rightarrow> Some (hd (js_split (of_char (CHR ''T'')) (toISOString T d)))
                 | None \<Rightarrow> None),
       e_period = r_period row,
       e_plate = r_plate row,
       e_car = r_car row,
       e_service = r_service row,
       e_locality = r_locality row,
       e_status = r_status row,
       e_notes = r_notes row,
       e_extra = r_extra row,
       e_sortIndex = r_sort_index row,
       e_createdAt = r_created_at row,
       e_updatedAt = r_updated_at row \<rparr>"

text \<open>
  A response body is the empty string or \<^verbatim>\<open>JSON.stringify\<close> of an envelope; the model
  keeps the envelope.  A key that the source does not give, or gives as undefined, is
  \<open>None\<close>.  \<^verbatim>\<open>details\<close> is the list of validation messages or the message of an error.
\<close>

datatype payload = One entity | Many "entity list"

datatype details = Messages "jstring list" | Message js_error

record envelope =
  success :: bool
  data :: "payload option"
  error :: "jstring option"
  details :: "details option"
  message :: "jstring option"

datatype body = Empty | Json envelope

record response =
  statusCode :: nat
  headers :: "(jstring \<times> jstring) list"
  body :: body

definition corsHeaders :: "(jstring \<times> jstring) list" where
  "corsHeaders =
     [(str ''Access-Control-Allow-Origin'', str ''*''),
      (str ''Access-Control-Allow-Headers'', str ''Content-Type, Authorization''),
      (str ''Access-Control-Allow-Methods'', str ''GET, POST, PUT, DELETE, OPTIONS'')]"

definition msg_invalid :: jstring where
  "msg_invalid = str (''Dados inv'' @ [CHR 0xE1] @ ''lidos'')"

definition msg_id_required :: jstring where
  "msg_id_required =
     str (''ID do agendamento '' @ [CHR 0xE9] @ '' obrigat'' @ [CHR 0xF3] @ ''rio'')"

definition msg_not_found :: jstring where
  "msg_not_found = str (''Agendamento n'' @ [CHR 0xE3] @ ''o encontrado'')"

definition msg_method :: jstring where
  "msg_method = str (''M'' @ [CHR 0xE9] @ ''todo n'' @ [CHR 0xE3] @ ''o permitido'')"

definition msg_internal :: jstring where
  "msg_internal = str ''Erro interno do servidor''"

definition msg_created :: jstring where
  "msg_created = str ''Agendamento criado com sucesso''"

definition msg_updated :: jstring where
  "msg_updated = str ''Agendamento atualizado com sucesso''"

definition msg_deleted :: jstring where
  "msg_deleted = str ''Agendamento eliminado com sucesso''"

definition ok_list :: "entity list \<Rightarrow> response" where
  "ok_list appointments =
     \<lparr> statusCode = 200, headers = corsHeaders,
       body = Json \<lparr> success = True, data = Some (Many appointments), error = None,
                     details = None, message = None \<rparr> \<rparr>"

definition ok_entity :: "nat \<Rightarrow> entity \<Rightarrow> jstring \<Rightarrow> response" where
  "ok_entity code appointment msg =
     \<lparr> statusCode = code, headers = corsHeaders,
       body = Json \<lparr> success = True, data = Some (One appointment), error = None,
                     details = None, message = Some msg \<rparr> \<rparr>"

definition ok_message :: "jstring \<Rightarrow> response" where
  "ok_message msg =
     \<lparr> statusCode = 200, headers = corsHeaders,
       body = Json \<lparr> success = True, data = None, error = None,
                     details = None, message = Some msg \<rparr> \<rparr>"

definition failure :: "nat \<Rightarrow> jstring \<Rightarrow> response" where
  "failure code err =
     \<lparr> statusCode = code, headers = corsHeaders,
       body = Json \<lparr> success = False, data = None, error = Some err,
                     details = None, message = None \<rparr> \<rparr>"

definition invalid :: "jstring list \<Rightarrow> response" where
  "invalid validationErrors =
     \<lparr> statusCode = 400, headers = corsHeaders,
       body = Json \<lparr> success = False, data = None, error = Some msg_invalid,
                     details = Some (Messages validationErrors), message = None \<rparr> \<rparr>"

text \<open>The response of the \<^verbatim>\<open>catch\<close> branch.\<close>

definition internal_error :: "env \<Rightarrow> js_error \<Rightarrow> response" where
  "internal_error env e =
     \<lparr> statusCode = 500, headers = corsHeaders,
       body = Json \<lparr> success = False, data = None, error = Some msg_internal,
                     details = (if NODE_ENV env = Some (str ''development'')
                                then Some (Message e) else None),
                     message = None \<rparr> \<rparr>"

section \<open>The handler\<close>

text \<open>
  An event has the method, the path and the body.  \<^verbatim>\<open>JSON.parse(event.body)\<close> is part
  of the event: \<open>None\<close> when it throws.
\<close>

record event =
  httpMethod :: jstring
  path :: jstring
  json_body :: "jsval option"

datatype stmt = SELECT | INSERT | UPDATE | DELETE

text \<open>
  What the handler does to the outside: a connection opened by \<^verbatim>\<open>connectDB()\<close>, a
  statement sent with \<^verbatim>\<open>client.query\<close>, the connection closed by \<^verbatim>\<open>client.end()\<close>.
\<close>

datatype effect = Connect | Query stmt | End

text \<open>
  The branches of the \<^verbatim>\<open>switch\<close>.  Each gives the response it returns or the error it
  throws, the table after it, and the statements it sent.
\<close>

type_synonym 'd branch = "(js_error + response) \<times> 'd row list \<times> stmt list"

definition handle_GET :: "('d::linorder) table_decl \<Rightarrow> env \<Rightarrow> 'd row list \<Rightarrow> 'd branch" where
  "handle_GET T env rows =
     (case select_rows env rows of
        Inl e \<Rightarrow> (Inl e, rows, [SELECT])
      | Inr result \<Rightarrow> (Inr (ok_list (map (transformToFrontend T) result)), rows, [SELECT]))"

definition handle_POST :: "'d table_decl \<Rightarrow> env \<Rightarrow> 'd row list \<Rightarrow> event \<Rightarrow> 'd branch" where
  "handle_POST T env rows ev =
     (case json_body ev of
        None \<Rightarrow> (Inl SyntaxError, rows, [])
      | Some newData \<Rightarrow>
          (case validateAppointment newData of
             Inl e \<Rightarrow> (Inl e, rows, [])
           | Inr validationErrors \<Rightarrow>
               if length validationErrors > 0 then (Inr (invalid validationErrors), rows, [])
               else (case transformToBackend (toUpperCase env) newData of
                       Inl e \<Rightarrow> (Inl e, rows, [])
                     | Inr transformedData \<Rightarrow>
                         (case insert_row T env rows transformedData of
                            Inl e \<Rightarrow> (Inl e, rows, [INSERT])
                          | Inr (r, rows') \<Rightarrow>
                              (Inr (ok_entity 201 (transformToFrontend T r) msg_created),
                               rows', [INSERT])))))"

definition handle_PUT ::
  "'d table_decl \<Rightarrow> env \<Rightarrow> 'd row list \<Rightarrow> event \<Rightarrow> jstring \<Rightarrow> 'd branch" where
  "handle_PUT T env rows ev appointmentId =
     (if appointmentId = [] \<or> appointmentId = str ''appointments''
      then (Inr (failure 400 msg_id_required), rows, [])
      else case json_body ev of
        None \<Rightarrow> (Inl SyntaxError, rows, [])
      | Some updateData \<Rightarrow>
          (case validateAppointment updateData of
             Inl e \<Rightarrow> (Inl e, rows, [])
           | Inr updateValidationErrors \<Rightarrow>
               if length updateValidationErrors > 0
               then (Inr (invalid updateValidationErrors), rows, [])
               else (case transformToBackend (toUpperCase env) updateData of
                       Inl e \<Rightarrow> (Inl e, rows, [])
                     | Inr transformedUpdateData \<Rightarrow>
                         (case update_rows T env rows transformedUpdateData appointmentId of
                            Inl e \<Rightarrow> (Inl e, rows, [UPDATE])
                          | Inr (result, rows') \<Rightarrow>
                              (case result of
                                 [] \<Rightarrow> (Inr (failure 404 msg_not_found), rows', [UPDATE])
                               | r # _ \<Rightarrow>
                                   (Inr (ok_entity 200 (transformToFrontend T r) msg_updated),
                                    rows', [UPDATE]))))))"

definition handle_DELETE ::
  "'d table_decl \<Rightarrow> env \<Rightarrow> 'd row list \<Rightarrow> jstring \<Rightarrow> 'd branch" where
  "handle_DELETE T env rows appointmentId =
     (if appointmentId = [] \<or> appointmentId = str ''appointments''
      then (Inr (failure 400 msg_id_required), rows, [])
      else case delete_rows T env rows appointmentId of
             Inl e \<Rightarrow> (Inl e, rows, [DELETE])
           | Inr (result, rows') \<Rightarrow>
               (case result of
                  [] \<Rightarrow> (Inr (failure 404 msg_not_found), rows', [DELETE])
                | _ # _ \<Rightarrow> (Inr (ok_message msg_deleted), rows', [DELETE])))"

text \<open>The body of the \<^verbatim>\<open>try\<close> after \<^verbatim>\<open>connectDB()\<close> has returned.\<close>

definition switch :: "('d::linorder) table_decl \<Rightarrow> env \<Rightarrow> 'd row list \<Rightarrow> event \<Rightarrow> 'd branch" where
  "switch T env rows ev =
     (let method = httpMethod ev;
          pathParts = js_split (of_char (CHR ''/'')) (path ev);
          appointmentId = last pathParts
      in if method = str ''GET'' then handle_GET T env rows
         else if method = str ''POST'' then handle_POST T env rows ev
         else if method = str ''PUT'' then handle_PUT T env rows ev appointmentId
         else if method = str ''DELETE'' then handle_DELETE T env rows appointmentId
         else (Inr (failure 405 msg_method), rows, []))"

record 'd outcome =
  reply :: response
  table :: "'d row list"
  effects :: "effect list"

text \<open>
  \<^verbatim>\<open>exports.handler\<close>: the response, the table after the invocation and what was done
  to the outside, in order.  When \<^verbatim>\<open>connectDB()\<close> throws, \<^verbatim>\<open>client\<close> stays undefined and
  the \<^verbatim>\<open>finally\<close> branch has nothing to end.  \<^verbatim>\<open>client.end()\<close> itself is taken to
  return.
\<close>

definition handler :: "('d::linorder) table_decl \<Rightarrow> env \<Rightarrow> 'd row list \<Rightarrow> event \<Rightarrow> 'd outcome" where
  "handler T env rows ev =
     (if httpMethod ev = str ''OPTIONS''
      then \<lparr> reply = \<lparr> statusCode = 200, headers = corsHeaders, body = Empty \<rparr>,
             table = rows, effects = [] \<rparr>
      else if \<not> connects env
      then \<lparr> reply = internal_error env ConnectError, table = rows, effects = [] \<rparr>
      else (case switch T env rows ev of
              (Inl e, rows', stmts) \<Rightarrow>
                \<lparr> reply = internal_error env e, table = rows',
                  effects = Connect # map Query stmts @ [End] \<rparr>
            | (Inr r, rows', stmts) \<Rightarrow>
                \<lparr> reply = r, table = rows',
                  effects = Connect # map Query stmts @ [End] \<rparr>))"

section \<open>The statements of the specification\<close>

subsection \<open>The six validation rules\<close>

text \<open>
  The rules as the specification words them: \<^verbatim>\<open>plate\<close>, \<^verbatim>\<open>car\<close> and \<^verbatim>\<open>locality\<close> must
  be a non-empty string after trimming; \<^verbatim>\<open>service\<close> must be one of the five codes and
  \<^verbatim>\<open>status\<close> one of the three; \<^verbatim>\<open>period\<close>, if provided, must be one of the two values.
  Provided is what the specification glosses as non-null and non-empty: a value that is
  not absent, not null and not the empty string.
\<close>

datatype rule = PlateRule | CarRule | ServiceRule | LocalityRule | StatusRule | PeriodRule

definition all_rules :: "rule list" where
  "all_rules = [PlateRule, CarRule, ServiceRule, LocalityRule, StatusRule, PeriodRule]"

definition nonempty_string :: "jsval \<Rightarrow> bool" where
  "nonempty_string v = (case v of JStr s \<Rightarrow> trim s \<noteq> [] | _ \<Rightarrow> False)"

definition one_of :: "jstring list \<Rightarrow> jsval \<Rightarrow> bool" where
  "one_of codes v = (case v of JStr s \<Rightarrow> s \<in> set codes | _ \<Rightarrow> False)"

definition provided :: "jsval \<Rightarrow> bool" where
  "provided v = (v \<noteq> JUndefined \<and> v \<noteq> JNull \<and> v \<noteq> JStr [])"

fun rule_holds :: "rule \<Rightarrow> jsval \<Rightarrow> bool" where
  "rule_holds PlateRule d = nonempty_string (js_get d ''plate'')"
| "rule_holds CarRule d = nonempty_string (js_get d ''car'')"
| "rule_holds ServiceRule d = one_of services (js_get d ''service'')"
| "rule_holds LocalityRule d = nonempty_string (js_get d ''locality'')"
| "rule_holds StatusRule d = one_of statuses (js_get d ''status'')"
| "rule_holds PeriodRule d =
     (if provided (js_get d ''period'') then one_of periods (js_get d ''period'') else True)"

fun rule_message :: "rule \<Rightarrow> jstring" where
  "rule_message PlateRule = msg_plate"
| "rule_message CarRule = msg_car"
| "rule_message ServiceRule = msg_service"
| "rule_message LocalityRule = msg_locality"
| "rule_message StatusRule = msg_status"
| "rule_message PeriodRule = msg_period"

text \<open>The violated rules of an input, each once, in the order of the specification.\<close>

definition violated :: "jsval \<Rightarrow> rule list" where
  "violated d = filter (\<lambda>r. \<not> rule_holds r d) all_rules"

text \<open>
  The same rules with the one on \<^verbatim>\<open>period\<close> read more narrowly: a period is looked at
  only if JavaScript counts it as true, so that the number 0 and \<^verbatim>\<open>false\<close> pass as well.
\<close>

fun rule_passes :: "rule \<Rightarrow> jsval \<Rightarrow> bool" where
  "rule_passes PeriodRule d =
     (if truthy (js_get d ''period'') then one_of periods (js_get d ''period'') else True)"
| "rule_passes r d = rule_holds r d"

definition failed :: "jsval \<Rightarrow> rule list" where
  "failed d = filter (\<lambda>r. \<not> rule_passes r d) all_rules"

subsection \<open>Requests and responses\<close>

text \<open>The \<^verbatim>\<open>data\<close> and the \<^verbatim>\<open>details\<close> of a response, if it has them.\<close>

definition payload_of :: "response \<Rightarrow> payload option" where
  "payload_of r = (case body r of Empty \<Rightarrow> None | Json e \<Rightarrow> data e)"

definition details_of :: "response \<Rightarrow> details option" where
  "details_of r = (case body r of Empty \<Rightarrow> None | Json e \<Rightarrow> details e)"

text \<open>The last segment of the path, which PUT and DELETE take for the \<^verbatim>\<open>id\<close>.\<close>

definition requested_id :: "event \<Rightarrow> jstring" where
  "requested_id ev = last (js_split (of_char (CHR ''/'')) (path ev))"

definition usable_id :: "event \<Rightarrow> bool" where
  "usable_id ev = (requested_id ev \<noteq> [] \<and> requested_id ev \<noteq> str ''appointments'')"

text \<open>The requests on which the handler reaches \<^verbatim>\<open>JSON.parse(event.body)\<close>.\<close>

definition parses_body :: "event \<Rightarrow> bool" where
  "parses_body ev =
     (httpMethod ev = str ''POST'' \<or> (httpMethod ev = str ''PUT'' \<and> usable_id ev))"

subsection \<open>The order of the list\<close>

text \<open>
  Ascending with NULL after every value, and the order that the specification gives
  the list: a row without date comes after every row with one; two rows with dates come
  by date, then by period, then by \<^verbatim>\<open>sort_index\<close>.
\<close>

definition asc_le :: "('a::linorder) option \<Rightarrow> 'a option \<Rightarrow> bool" where
  "asc_le a b =
     (case b of None \<Rightarrow> True | Some y \<Rightarrow> (case a of None \<Rightarrow> False | Some x \<Rightarrow> x \<le> y))"

definition listed_before :: "('d::linorder) row \<Rightarrow> 'd row \<Rightarrow> bool" where
  "listed_before r s =
     (case r_date s of
        None \<Rightarrow> True
      | Some e \<Rightarrow>
          (case r_date r of
             None \<Rightarrow> False
           | Some d \<Rightarrow>
               d < e \<or>
               (d = e \<and>
                 ((asc_le (r_period r) (r_period s) \<and> r_period r \<noteq> r_period s) \<or>
                  (r_period r = r_period s \<and> asc_le (r_sort_index r) (r_sort_index s))))))"

subsection \<open>The normal form of an input\<close>

text \<open>
  An optional text is trimmed, and null when it is absent or empty after trimming.  A
  text passes as given when it is a string that is not empty, and is null otherwise.
\<close>

definition optional_text :: "jsval \<Rightarrow> jstring option" where
  "optional_text v =
     (case v of JStr s \<Rightarrow> if trim s = [] then None else Some (trim s) | _ \<Rightarrow> None)"

definition given_text :: "jsval \<Rightarrow> jstring option" where
  "given_text v = (case v of JStr s \<Rightarrow> if s = [] then None else Some s | _ \<Rightarrow> None)"

text \<open>
  The date that the response shows for a \<^verbatim>\<open>Date\<close> of the table: what
  \<^verbatim>\<open>toISOString()\<close> gives, up to the first \<^verbatim>\<open>T\<close>.
\<close>

definition shown_date :: "'d table_decl \<Rightarrow> 'd \<Rightarrow> jstring" where
  "shown_date T d = hd (js_split (of_char (CHR ''T'')) (toISOString T d))"

text \<open>
  The value that goes into \<^verbatim>\<open>sort_index\<close>: \<^verbatim>\<open>sortIndex\<close> unless JavaScript counts it as
  false, then \<^verbatim>\<open>sort_index\<close> unless it counts as false, then 1.
\<close>

definition chosen_sort_index :: "jsval \<Rightarrow> jsval" where
  "chosen_sort_index d =
     (if truthy (js_get d ''sortIndex'') then js_get d ''sortIndex''
      else if truthy (js_get d ''sort_index'') then js_get d ''sort_index''
      else JNum 1)"


section \<open>A table and an engine for the examples\<close>

text \<open>
  A declaration of the table to run the handler on: an integer key given in decimal, a
  \<^verbatim>\<open>date\<close> column of calendar dates (year, month, day) that reads the ISO 8601 forms
  \<^verbatim>\<open>YYYY-MM-DD\<close> and \<^verbatim>\<open>YYYYMMDD\<close>, and an integer \<^verbatim>\<open>sort_index\<close> that reads a whole
  number or its decimal text.  The \<^verbatim>\<open>Date\<close> of a calendar date is its midnight in UTC.
\<close>

type_synonym ymd = "nat \<times> nat \<times> nat"

definition digit :: "nat \<Rightarrow> nat option" where
  "digit c = (if 48 \<le> c \<and> c \<le> 57 then Some (c - 48) else None)"

definition decimal :: "jstring \<Rightarrow> nat option" where
  "decimal s =
     (if s = [] then None
      else fold (\<lambda>c acc. case acc of None \<Rightarrow> None
                          | Some a \<Rightarrow> map_option (\<lambda>k. 10 * a + k) (digit c)) s (Some 0))"

definition ymd_of :: "jstring \<Rightarrow> jstring \<Rightarrow> jstring \<Rightarrow> ymd option" where
  "ymd_of y m d =
     (case decimal y of None \<Rightarrow> None | Some yy \<Rightarrow>
      case decimal m of None \<Rightarrow> None | Some mm \<Rightarrow>
      case decimal d of None \<Rightarrow> None | Some dd \<Rightarrow>
        if 1 \<le> mm \<and> mm \<le> 12 \<and> 1 \<le> dd \<and> dd \<le> 31 then Some (yy, mm, dd) else None)"

definition example_date_in :: "jsval \<Rightarrow> ymd option" where
  "example_date_in v =
     (case v of
        JStr s \<Rightarrow>
          if length s = 10 \<and> s ! 4 = of_char (CHR ''-'') \<and> s ! 7 = of_char (CHR ''-'')
          then ymd_of (take 4 s) (take 2 (drop 5 s)) (drop 8 s)
          else if length s = 8 then ymd_of (take 4 s) (take 2 (drop 4 s)) (drop 6 s)
          else None
      | _ \<Rightarrow> None)"

definition dg :: "nat \<Rightarrow> nat" where
  "dg k = 48 + k mod 10"

definition example_toISOString :: "ymd \<Rightarrow> jstring" where
  "example_toISOString x =
     (case x of (y, m, d) \<Rightarrow>
        [dg (y div 1000), dg (y div 100), dg (y div 10), dg y] @ str ''-'' @
        [dg (m div 10), dg m] @ str ''-'' @ [dg (d div 10), dg d] @ str ''T00:00:00.000Z'')"

definition example_int_in :: "jsval \<Rightarrow> int option" where
  "example_int_in v =
     (case v of
        JNum q \<Rightarrow> if of_int \<lfloor>q\<rfloor> = q then Some \<lfloor>q\<rfloor> else None
      | JStr s \<Rightarrow> map_option int (decimal s)
      | _ \<Rightarrow> None)"

definition example_table :: "ymd table_decl" where
  "example_table =
     \<lparr> id_in = decimal, date_in = example_date_in, int_in = example_int_in,
       toISOString = example_toISOString \<rparr>"

text \<open>
  What \<^verbatim>\<open>toUpperCase\<close> does to the letters a to z; the examples use it on texts of
  letters, digits, hyphens and spaces.
\<close>

definition ascii_upper :: "jstring \<Rightarrow> jstring" where
  "ascii_upper s = map (\<lambda>c. if 97 \<le> c \<and> c \<le> 122 then c - 32 else c) s"

text \<open>
  The server reachable, in production and in development; the server down; and the
  server that takes the connection and then does not answer.
\<close>

definition production :: env where
  "production =
     \<lparr> NODE_ENV = Some (str ''production''), toUpperCase = ascii_upper, connects = True,
       answers = True, CURRENT_TIMESTAMP = 7 \<rparr>"

definition development :: env where
  "development =
     \<lparr> NODE_ENV = Some (str ''development''), toUpperCase = ascii_upper, connects = True,
       answers = True, CURRENT_TIMESTAMP = 7 \<rparr>"

definition server_down :: env where
  "server_down =
     \<lparr> NODE_ENV = Some (str ''development''), toUpperCase = ascii_upper, connects = False,
       answers = False, CURRENT_TIMESTAMP = 7 \<rparr>"

definition server_silent :: env where
  "server_silent =
     \<lparr> NODE_ENV = Some (str ''production''), toUpperCase = ascii_upper, connects = True,
       answers = False, CURRENT_TIMESTAMP = 7 \<rparr>"

definition request :: "string \<Rightarrow> string \<Rightarrow> jsval option \<Rightarrow> event" where
  "request m p b = \<lparr> httpMethod = str m, path = str p, json_body = b \<rparr>"

text \<open>An object and a string, written with Isabelle strings.\<close>

definition obj :: "(string \<times> jsval) list \<Rightarrow> jsval" where
  "obj kvs = JObj (map (\<lambda>(k, v). (str k, v)) kvs)"

definition jstr :: "string \<Rightarrow> jsval" where
  "jstr s = JStr (str s)"

text \<open>An input without \<^verbatim>\<open>plate\<close> and \<^verbatim>\<open>service\<close>, the other required fields valid.\<close>

definition no_plate_no_service :: jsval where
  "no_plate_no_service =
     obj [(''car'', jstr ''Golf''), (''locality'', jstr ''Braga''), (''status'', jstr ''NE'')]"

text \<open>
  Inputs: the four required fields other than \<^verbatim>\<open>status\<close>, with white space to trim,
  and what the examples add to them.
\<close>

definition valid_fields :: "(string \<times> jsval) list" where
  "valid_fields =
     [(''plate'', jstr '' ab-12-cd ''), (''car'', jstr ''Golf ''), (''service'', jstr ''PB''),
      (''locality'', jstr ''Braga'')]"

definition no_status :: jsval where
  "no_status = obj valid_fields"

definition basic_date :: jsval where
  "basic_date =
     obj (valid_fields @
       [(''status'', jstr ''VE''), (''date'', jstr ''20240501''), (''period'', jstr ''Tarde''),
        (''notes'', jstr ''  ''), (''extra'', jstr '' vidro ''), (''sort_index'', JNum 4)])"

definition extended_date :: jsval where
  "extended_date =
     obj (valid_fields @
       [(''status'', jstr ''ST''), (''date'', jstr ''2024-05-01''),
        (''period'', jstr (''Manh'' @ [CHR 0xE3])), (''notes'', jstr '' fenda '')])"

definition zero_index :: jsval where
  "zero_index = obj (valid_fields @ [(''status'', jstr ''NE''), (''sortIndex'', JNum 0)])"

definition period_false :: jsval where
  "period_false = obj (valid_fields @ [(''status'', jstr ''NE''), (''period'', JBool False)])"

definition notes_five :: jsval where
  "notes_five = obj (valid_fields @ [(''status'', jstr ''NE''), (''notes'', JNum 5)])"

text \<open>Three rows: one without date, and an afternoon and a morning of the same day.\<close>

definition example_row :: "nat \<Rightarrow> ymd option \<Rightarrow> jstring option \<Rightarrow> int \<Rightarrow> ymd row" where
  "example_row i d p k =
     \<lparr> r_id = i, r_date = d, r_period = p, r_plate = Some (str ''AA-00-AA''),
       r_car = Some (str ''Golf''), r_service = Some (str ''PB''),
       r_locality = Some (str ''Braga''), r_status = Some (str ''NE''), r_notes = None,
       r_extra = None, r_sort_index = Some k, r_created_at = 1, r_updated_at = 1 \<rparr>"

definition unscheduled :: "ymd row" where
  "unscheduled = example_row 1 None None 1"

definition afternoon :: "ymd row" where
  "afternoon = example_row 2 (Some (2024, 5, 1)) (Some (str ''Tarde'')) 1"

definition morning :: "ymd row" where
  "morning = example_row 3 (Some (2024, 5, 1)) (Some (str (''Manh'' @ [CHR 0xE3]))) 2"

section \<open>Properties\<close>

subsection \<open>Evaluation\<close>

lemmas js_defs = validateAppointment_def transformToBackend_def js_or_def js_includes_def
  services_def statuses_def periods_def trim_def js_whitespace_def str_def

lemmas table_defs = insert_row_def update_rows_def delete_rows_def select_rows_def
  set_columns_def date_col_def int_col_def new_row_def fresh_id_def order_key_def asc_def
  transformToFrontend_def Let_def

lemmas handler_defs = handler_def switch_def handle_GET_def handle_POST_def handle_PUT_def
  handle_DELETE_def requested_id_def usable_id_def parses_body_def request_def

lemmas example_defs = example_table_def example_date_in_def example_int_in_def
  example_toISOString_def dg_def ymd_of_def decimal_def digit_def production_def
  development_def server_down_def server_silent_def ascii_upper_def

lemmas spec_defs = violated_def failed_def all_rules_def nonempty_string_def one_of_def
  provided_def

lemmas response_defs = ok_list_def ok_entity_def ok_message_def failure_def invalid_def
  internal_error_def

lemmas row_defs = example_row_def unscheduled_def afternoon_def morning_def

lemmas input_defs = valid_fields_def no_status_def basic_date_def extended_date_def
  zero_index_def no_plate_no_service_def period_false_def notes_five_def obj_def jstr_def

subsection \<open>String constants\<close>

lemma str_eq_iff [simp]: "str a = str b \<longleftrightarrow> a = b"
  unfolding str_def by (rule inj_map_eq_map) (rule inj_of_char)

lemma str_Nil_iff [simp]: "str a = [] \<longleftrightarrow> a = []" "[] = str a \<longleftrightarrow> a = []"
  by (auto simp: str_def)

subsection \<open>The handler, method by method\<close>

lemma handler_POST:
  "connects env \<Longrightarrow> httpMethod ev = str ''POST'' \<Longrightarrow>
   handler T env rows ev =
     (case handle_POST T env rows ev of
        (Inl e, rows', stmts) \<Rightarrow>
          \<lparr> reply = internal_error env e, table = rows',
            effects = Connect # map Query stmts @ [End] \<rparr>
      | (Inr r, rows', stmts) \<Rightarrow>
          \<lparr> reply = r, table = rows', effects = Connect # map Query stmts @ [End] \<rparr>)"
  by (simp add: handler_def switch_def)

lemma handler_PUT:
  "connects env \<Longrightarrow> httpMethod ev = str ''PUT'' \<Longrightarrow>
   handler T env rows ev =
     (case handle_PUT T env rows ev (requested_id ev) of
        (Inl e, rows', stmts) \<Rightarrow>
          \<lparr> reply = internal_error env e, table = rows',
            effects = Connect # map Query stmts @ [End] \<rparr>
      | (Inr r, rows', stmts) \<Rightarrow>
          \<lparr> reply = r, table = rows', effects = Connect # map Query stmts @ [End] \<rparr>)"
  by (simp add: handler_def switch_def requested_id_def)

lemma handler_GET:
  "connects env \<Longrightarrow> httpMethod ev = str ''GET'' \<Longrightarrow>
   handler T env rows ev =
     (if answers env
      then \<lparr> reply = ok_list (map (transformToFrontend T) (sort_key order_key rows)),
             table = rows, effects = [Connect, Query SELECT, End] \<rparr>
      else \<lparr> reply = internal_error env QueryError, table = rows,
             effects = [Connect, Query SELECT, End] \<rparr>)"
  by (simp add: handler_def switch_def handle_GET_def select_rows_def)

lemma switch_stmts:
  "switch T env rows ev = (res, rows', stmts) \<Longrightarrow> length stmts \<le> 1"
  unfolding switch_def handle_GET_def handle_POST_def handle_PUT_def handle_DELETE_def Let_def
  by (auto split: if_splits sum.splits option.splits prod.splits list.splits)

lemma switch_400:
  "switch T env rows ev = (Inr r, rows', stmts) \<Longrightarrow> statusCode r = 400
     \<Longrightarrow> rows' = rows \<and> stmts = []"
  unfolding switch_def handle_GET_def handle_POST_def handle_PUT_def handle_DELETE_def Let_def
  by (auto simp: response_defs split: if_splits sum.splits option.splits prod.splits list.splits)

lemma path_unused:
  "httpMethod ev \<noteq> str ''PUT'' \<Longrightarrow> httpMethod ev \<noteq> str ''DELETE''
     \<Longrightarrow> handler T env rows (ev\<lparr>path := p\<rparr>) = handler T env rows ev"
  by (simp add: handler_def switch_def handle_POST_def Let_def)

lemma GET_never_one:
  "httpMethod ev = str ''GET'' \<Longrightarrow> payload_of (reply (handler T env rows ev)) \<noteq> Some (One e)"
  by (simp add: handler_def switch_def handle_GET_def select_rows_def payload_of_def
      response_defs)




subsection \<open>The order of the list\<close>

lemma key_listed: "order_key r \<le> order_key s \<Longrightarrow> listed_before r s"
  unfolding order_key_def asc_def listed_before_def asc_le_def
  by (auto simp: less_eq_prod_def less_prod_def split: option.splits if_splits)

lemma sorted_listed: "sorted_wrt listed_before (sort_key order_key rows)"
proof -
  have "sorted (map order_key (sort_key order_key rows))"
    by (rule sorted_sort_key)
  then have "sorted_wrt (\<lambda>r s. order_key r \<le> order_key s) (sort_key order_key rows)"
    by (simp add: sorted_map)
  then show ?thesis
    by (rule sorted_wrt_mono_rel[rotated]) (rule key_listed)
qed

lemma sorted_examples:
  "sort_key order_key [unscheduled, afternoon, morning] = [morning, afternoon, unscheduled]"
  by (simp add: row_defs order_key_def asc_def str_def)

subsection \<open>Validation\<close>

lemma trim_Nil [simp]: "trim [] = []"
  by (simp add: trim_def)

lemma string_test:
  "(\<not> truthy v \<or> typeof v \<noteq> str ''string'' \<or> length (trim (str_val v)) = 0)
     = (\<not> nonempty_string v)"
  by (cases v) (auto simp: nonempty_string_def)

lemma code_test:
  "[] \<notin> set codes \<Longrightarrow> (\<not> truthy v \<or> \<not> js_includes codes v) = (\<not> one_of codes v)"
  by (cases v) (auto simp: one_of_def js_includes_def)

lemma period_test:
  "(truthy v \<and> \<not> js_includes periods v)
     = (\<not> (if truthy v then one_of periods v else True))"
  by (cases v) (auto simp: one_of_def js_includes_def)

lemma no_empty_code: "[] \<notin> set services" "[] \<notin> set statuses" "[] \<notin> set periods"
  by (simp_all add: services_def statuses_def periods_def)

lemma validate_failed:
  "validateAppointment d =
     (if nullish d then Inl TypeError else Inr (map rule_message (failed d)))"
  unfolding validateAppointment_def failed_def all_rules_def
  by (simp only: string_test code_test[OF no_empty_code(1)] code_test[OF no_empty_code(2)]
      period_test) simp

lemma rule_message_inj: "inj rule_message"
proof (rule injI)
  fix a b
  assume "rule_message a = rule_message b"
  then show "a = b"
    by (cases a; cases b)
       (simp_all add: msg_plate_def msg_car_def msg_service_def msg_locality_def
          msg_status_def msg_period_def)
qed

lemma set_all_rules: "set all_rules = UNIV"
proof -
  have "r \<in> set all_rules" for r
    by (cases r) (simp_all add: all_rules_def)
  then show ?thesis
    by blast
qed

lemma set_violated: "set (violated d) = {r. \<not> rule_holds r d}"
  unfolding violated_def by (simp only: set_filter set_all_rules) simp

lemma set_failed: "set (failed d) = {r. \<not> rule_passes r d}"
  unfolding failed_def by (simp only: set_filter set_all_rules) simp

lemma truthy_provided:
  "v \<noteq> JBool False \<Longrightarrow> v \<noteq> JNum 0 \<Longrightarrow> truthy v = provided v"
  by (cases v) (auto simp: provided_def)

lemma provided_truthy: "truthy v \<Longrightarrow> provided v"
  by (cases v) (auto simp: provided_def)

lemma holds_passes: "rule_holds r d \<Longrightarrow> rule_passes r d"
  using provided_truthy[of "js_get d ''period''"]
  by (cases r) (auto split: if_splits)

lemma failed_violated:
  assumes "js_get d ''period'' \<noteq> JBool False" "js_get d ''period'' \<noteq> JNum 0"
  shows "failed d = violated d"
proof -
  have "rule_passes r d = rule_holds r d" for r
    using truthy_provided[OF assms] by (cases r) simp_all
  then show ?thesis
    by (simp add: failed_def violated_def)
qed

lemma invalid_reply:
  assumes "connects env" "parses_body ev" "json_body ev = Some d" "\<not> nullish d"
    "failed d \<noteq> []"
  shows "handler T env rows ev =
    \<lparr> reply = invalid (map rule_message (failed d)), table = rows,
      effects = [Connect, End] \<rparr>"
proof (cases "httpMethod ev = str ''POST''")
  case True
  with assms show ?thesis
    by (simp add: handler_POST handle_POST_def validate_failed)
next
  case False
  with assms show ?thesis
    by (simp add: parses_body_def usable_id_def handler_PUT handle_PUT_def validate_failed)
qed

subsection \<open>What a statement stores\<close>

lemma chosen_js_or:
  "js_or (js_or (js_get d ''sortIndex'') (js_get d ''sort_index'')) (JNum 1)
     = chosen_sort_index d"
  by (simp add: js_or_def chosen_sort_index_def)

lemma backend_fields:
  assumes "transformToBackend upper d = Inr b"
  shows "\<not> nullish d"
    and "opt_upper_trim upper (js_get d ''plate'') = Inr (b_plate b)"
    and "opt_trim (js_get d ''car'') = Inr (b_car b)"
    and "opt_trim (js_get d ''locality'') = Inr (b_locality b)"
    and "\<exists>n. opt_trim (js_get d ''notes'') = Inr n \<and> b_notes b = js_or n JNull"
    and "\<exists>x. opt_trim (js_get d ''extra'') = Inr x \<and> b_extra b = js_or x JNull"
    and "b_date b = js_or (js_get d ''date'') JNull"
    and "b_period b = js_or (js_get d ''period'') JNull"
    and "b_service b = js_get d ''service''"
    and "b_status b = js_or (js_get d ''status'') (JStr (str ''NE''))"
    and "b_sort_index b = chosen_sort_index d"
  using assms
  by (auto simp: transformToBackend_def chosen_js_or split: if_splits sum.splits)

lemma columns_fields:
  assumes "set_columns T b = Some f"
  shows "date_col T (b_date b) = Some (r_date (f r))"
    and "text_in (b_period b) = Some (r_period (f r))"
    and "text_in (b_plate b) = Some (r_plate (f r))"
    and "text_in (b_car b) = Some (r_car (f r))"
    and "text_in (b_service b) = Some (r_service (f r))"
    and "text_in (b_locality b) = Some (r_locality (f r))"
    and "text_in (b_status b) = Some (r_status (f r))"
    and "text_in (b_notes b) = Some (r_notes (f r))"
    and "text_in (b_extra b) = Some (r_extra (f r))"
    and "int_col T (b_sort_index b) = Some (r_sort_index (f r))"
    and "r_id (f r) = r_id r"
    and "r_created_at (f r) = r_created_at r"
    and "r_updated_at (f r) = r_updated_at r"
  using assms
  by (auto simp: set_columns_def bind_eq_Some_conv)

lemma optional_column:
  "opt_trim v = Inr n \<Longrightarrow> text_in (js_or n JNull) = Some (optional_text v)"
  by (cases v) (auto simp: js_or_def optional_text_def)

lemma required_column:
  "nonempty_string v \<Longrightarrow> opt_trim v = Inr (JStr (trim (str_val v)))
     \<and> opt_upper_trim upper v = Inr (JStr (trim (upper (str_val v))))"
  by (cases v) (auto simp: nonempty_string_def)

lemma code_column:
  "[] \<notin> set codes \<Longrightarrow> one_of codes v \<Longrightarrow> text_in (js_or v w) = Some (given_text v)
     \<and> text_in v = Some (given_text v)"
  by (cases v) (auto simp: one_of_def js_or_def given_text_def)

lemma period_column:
  "(if truthy v then one_of periods v else True)
     \<Longrightarrow> text_in (js_or v JNull) = Some (given_text v)"
  by (cases v) (auto simp: one_of_def js_or_def given_text_def split: if_splits)

lemma date_column:
  "date_col T (js_or v JNull) =
     (if truthy v then map_option Some (date_in T v) else Some None)"
  by (cases v) (auto simp: date_col_def js_or_def)

lemma chosen_truthy: "truthy (chosen_sort_index d)"
  by (simp add: chosen_sort_index_def)

lemma truthy_not_nullish: "truthy v \<Longrightarrow> \<not> nullish v"
  by (cases v) simp_all

lemma sort_index_column:
  "int_col T (chosen_sort_index d) = map_option Some (int_in T (chosen_sort_index d))"
  using truthy_not_nullish[OF chosen_truthy[of d]] by (simp add: int_col_def)

lemma all_pass:
  "failed d = [] \<Longrightarrow> rule_passes r d"
  using set_failed[of d] by auto

lemma stored_fields:
  assumes v: "failed d = []" and t: "transformToBackend upper d = Inr b"
    and c: "set_columns T b = Some f"
  shows "r_plate (f r) = Some (trim (upper (str_val (js_get d ''plate''))))"
    and "r_car (f r) = Some (trim (str_val (js_get d ''car'')))"
    and "r_locality (f r) = Some (trim (str_val (js_get d ''locality'')))"
    and "r_service (f r) = given_text (js_get d ''service'')"
    and "r_status (f r) = given_text (js_get d ''status'')"
    and "r_period (f r) = given_text (js_get d ''period'')"
    and "r_notes (f r) = optional_text (js_get d ''notes'')"
    and "r_extra (f r) = optional_text (js_get d ''extra'')"
    and "(if truthy (js_get d ''date'') then map_option Some (date_in T (js_get d ''date''))
          else Some None) = Some (r_date (f r))"
    and "map_option Some (int_in T (chosen_sort_index d)) = Some (r_sort_index (f r))"
proof -
  note bf = backend_fields[OF t] and cf = columns_fields[OF c, of r]
  note s = no_empty_code
  have "b_plate b = JStr (trim (upper (str_val (js_get d ''plate''))))"
    using all_pass[OF v, of PlateRule] bf(2) required_column[of "js_get d ''plate''" upper]
    by simp
  with cf(3) show "r_plate (f r) = Some (trim (upper (str_val (js_get d ''plate''))))"
    by simp
  have "b_car b = JStr (trim (str_val (js_get d ''car'')))"
    using all_pass[OF v, of CarRule] bf(3) required_column[of "js_get d ''car''"]
    by simp
  with cf(4) show "r_car (f r) = Some (trim (str_val (js_get d ''car'')))"
    by simp
  have "b_locality b = JStr (trim (str_val (js_get d ''locality'')))"
    using all_pass[OF v, of LocalityRule] bf(4) required_column[of "js_get d ''locality''"]
    by simp
  with cf(6) show "r_locality (f r) = Some (trim (str_val (js_get d ''locality'')))"
    by simp
  have "text_in (b_service b) = Some (given_text (js_get d ''service''))"
    using all_pass[OF v, of ServiceRule] bf(9)
      code_column[OF s(1), of "js_get d ''service''"]
    by simp
  with cf(5) show "r_service (f r) = given_text (js_get d ''service'')"
    by simp
  have "text_in (b_status b) = Some (given_text (js_get d ''status''))"
    using all_pass[OF v, of StatusRule] bf(10)
      code_column[OF s(2), of "js_get d ''status''" "JStr (str ''NE'')"]
    by simp
  with cf(7) show "r_status (f r) = given_text (js_get d ''status'')"
    by simp
  have "text_in (b_period b) = Some (given_text (js_get d ''period''))"
    using all_pass[OF v, of PeriodRule] bf(8) period_column[of "js_get d ''period''"]
    by simp
  with cf(2) show "r_period (f r) = given_text (js_get d ''period'')"
    by simp
  from bf(5) cf(8)
  show "r_notes (f r) = optional_text (js_get d ''notes'')"
    using optional_column[of "js_get d ''notes''"] by auto
  from bf(6) cf(9)
  show "r_extra (f r) = optional_text (js_get d ''extra'')"
    using optional_column[of "js_get d ''extra''"] by auto
  from bf(7) cf(1)
  show "(if truthy (js_get d ''date'') then map_option Some (date_in T (js_get d ''date''))
          else Some None) = Some (r_date (f r))"
    using date_column[of T "js_get d ''date''"] by simp
  from bf(11) cf(10)
  show "map_option Some (int_in T (chosen_sort_index d)) = Some (r_sort_index (f r))"
    using sort_index_column[of T d] by simp
qed


lemma POST_accepted:
  assumes "connects env" "httpMethod ev = str ''POST''" "json_body ev = Some d"
    "failed d = []" "transformToBackend (toUpperCase env) d = Inr b" "answers env" "set_columns T b = Some f"
  shows "handler T env rows ev =
    \<lparr> reply = ok_entity 201 (transformToFrontend T (f (new_row env rows)))
                msg_created,
      table = rows @ [f (new_row env rows)],
      effects = [Connect, Query INSERT, End] \<rparr>"
  using assms backend_fields(1)[OF assms(5)]
  by (simp add: handler_POST handle_POST_def validate_failed insert_row_def Let_def)

lemma POST_201:
  assumes "connects env" "httpMethod ev = str ''POST''"
    "statusCode (reply (handler T env rows ev)) = 201"
  shows "\<exists>d b f. json_body ev = Some d \<and> failed d = [] \<and> transformToBackend (toUpperCase env) d = Inr b
           \<and> answers env \<and> set_columns T b = Some f"
  using assms(3)
  unfolding handler_POST[OF assms(1,2)] handle_POST_def validate_failed insert_row_def Let_def
  by (auto simp: response_defs split: if_splits sum.splits option.splits)

lemma PUT_accepted:
  assumes "connects env" "httpMethod ev = str ''PUT''" "usable_id ev" "json_body ev = Some d"
    "failed d = []" "transformToBackend (toUpperCase env) d = Inr b" "answers env" "set_columns T b = Some f"
    "id_in T (requested_id ev) = Some i"
  shows "handler T env rows ev =
    \<lparr> reply = (case filter (\<lambda>r. r_id r = i) rows of
                 [] \<Rightarrow> failure 404 msg_not_found
               | r # _ \<Rightarrow> ok_entity 200
                     (transformToFrontend T ((f r)\<lparr> r_updated_at := CURRENT_TIMESTAMP env \<rparr>))
                     msg_updated),
      table = map (\<lambda>r. if r_id r = i then (f r)\<lparr> r_updated_at := CURRENT_TIMESTAMP env \<rparr>
                         else r) rows,
      effects = [Connect, Query UPDATE, End] \<rparr>"
  using assms backend_fields(1)[OF assms(6)]
  by (simp add: handler_PUT handle_PUT_def usable_id_def validate_failed update_rows_def
      Let_def split: list.splits)

lemma PUT_200:
  assumes "connects env" "httpMethod ev = str ''PUT''"
    "statusCode (reply (handler T env rows ev)) = 200"
  shows "\<exists>d b f i. usable_id ev \<and> json_body ev = Some d \<and> failed d = []
           \<and> transformToBackend (toUpperCase env) d = Inr b \<and> answers env \<and> set_columns T b = Some f
           \<and> id_in T (requested_id ev) = Some i"
  using assms(3)
  unfolding handler_PUT[OF assms(1,2)] handle_PUT_def validate_failed update_rows_def Let_def
    usable_id_def
  by (auto simp: response_defs split: if_splits sum.splits option.splits list.splits)


lemma fresh_id_new: "fresh_id rows \<notin> r_id ` set rows"
proof
  assume "fresh_id rows \<in> r_id ` set rows"
  then have "fresh_id rows \<in> set (0 # map r_id rows)"
    by simp
  then have "fresh_id rows \<le> Max (set (0 # map r_id rows))"
    by (meson Max_ge List.finite_set)
  then show False
    by (simp only: Max.set_eq_fold fresh_id_def)
qed


lemma stored_sort_index:
  assumes "failed d = []" "transformToBackend upper d = Inr b" "set_columns T b = Some f"
  shows "\<exists>n. int_in T (chosen_sort_index d) = Some n \<and> (\<forall>r. r_sort_index (f r) = Some n)"
  using stored_fields(10)[OF assms] by (cases "int_in T (chosen_sort_index d)") auto

lemma listed_after_create:
  assumes "connects env" "answers env" "httpMethod ev' = str ''GET''"
  shows "\<exists>es. statusCode (reply (handler T env (rows @ [r]) ev')) = 200
           \<and> payload_of (reply (handler T env (rows @ [r]) ev')) = Some (Many es)
           \<and> transformToFrontend T r \<in> set es"
proof -
  have "r \<in> set (sort_key order_key (rows @ [r]))"
    by simp
  then have "transformToFrontend T r
      \<in> set (map (transformToFrontend T) (sort_key order_key (rows @ [r])))"
    by (simp only: set_map) (rule imageI)
  with assms show ?thesis
    by (simp only: handler_GET[OF assms(1,3)] if_True outcome.simps)
       (simp add: ok_list_def payload_of_def)
qed



subsection \<open>The claims\<close>

text \<open>
  C2, as the handler has it.  Validation does not stop at the first violation.  On
  every input that is not null, \<^verbatim>\<open>validateAppointment\<close> returns the messages of the
  rules that the input fails, one message for each such rule and none else; when there
  is one, Create and Update answer 400 with that list as \<^verbatim>\<open>details\<close>.  The rules are
  the six of the specification, the one on \<^verbatim>\<open>period\<close> being applied to a period that
  JavaScript counts as true: they are the rules as the specification words them unless
  the period is the number 0 or \<^verbatim>\<open>false\<close>.  On null the validation throws.
\<close>

theorem validation_accumulates:
  "validateAppointment d =
     (if nullish d then Inl TypeError else Inr (map rule_message (failed d)))
   \<and> distinct (map rule_message (failed d))
   \<and> set (failed d) = {r. \<not> rule_passes r d}
   \<and> length (map rule_message (failed d)) = card {r. \<not> rule_passes r d}
   \<and> (js_get d ''period'' \<noteq> JBool False \<and> js_get d ''period'' \<noteq> JNum 0
      \<longrightarrow> failed d = violated d)
   \<and> (connects env \<and> parses_body ev \<and> json_body ev = Some d \<and> \<not> nullish d
        \<and> failed d \<noteq> []
      \<longrightarrow> statusCode (reply (handler T env rows ev)) = 400
        \<and> body (reply (handler T env rows ev))
            = Json \<lparr> success = False, data = None, error = Some msg_invalid,
                     details = Some (Messages (map rule_message (failed d))),
                     message = None \<rparr>)"
proof -
  have d: "distinct (failed d)"
    by (simp add: failed_def all_rules_def)
  have c: "length (map rule_message (failed d)) = card {r. \<not> rule_passes r d}"
    using distinct_card[OF d] set_failed[of d] by simp
  have h: "statusCode (reply (handler T env rows ev)) = 400
      \<and> body (reply (handler T env rows ev))
          = Json \<lparr> success = False, data = None, error = Some msg_invalid,
                   details = Some (Messages (map rule_message (failed d))),
                   message = None \<rparr>"
    if "connects env" "parses_body ev" "json_body ev = Some d" "\<not> nullish d" "failed d \<noteq> []"
    by (simp add: invalid_reply[OF that] invalid_def)
  have m: "distinct (map rule_message (failed d))"
    using d by (simp add: distinct_map inj_on_subset[OF rule_message_inj])
  show ?thesis
    using validate_failed[of d] m c set_failed[of d] failed_violated[of d] h
    by blast
qed

theorem validation_accumulates_witness:
  "connects production
   \<and> parses_body (request ''POST'' ''/appointments'' (Some no_plate_no_service))
   \<and> json_body (request ''POST'' ''/appointments'' (Some no_plate_no_service))
       = Some no_plate_no_service
   \<and> \<not> nullish no_plate_no_service
   \<and> violated no_plate_no_service = [PlateRule, ServiceRule]
   \<and> validateAppointment no_plate_no_service = Inr [msg_plate, msg_service]
   \<and> statusCode (reply (handler example_table production []
        (request ''POST'' ''/appointments'' (Some no_plate_no_service)))) = 400
   \<and> details_of (reply (handler example_table production []
        (request ''POST'' ''/appointments'' (Some no_plate_no_service))))
       = Some (Messages
           [str (''Matr'' @ [CHR 0xED] @ ''cula '' @ [CHR 0xE9] @ '' obrigat'' @ [CHR 0xF3]
              @ ''ria''),
            str (''Tipo de servi'' @ [CHR 0xE7] @ ''o inv'' @ [CHR 0xE1] @ ''lido'')])"
proof -
  let ?ev = "request ''POST'' ''/appointments'' (Some no_plate_no_service)"
  have f: "failed no_plate_no_service = [PlateRule, ServiceRule]"
    by (simp add: input_defs spec_defs js_defs)
  have p: "js_get no_plate_no_service ''period'' \<noteq> JBool False
      \<and> js_get no_plate_no_service ''period'' \<noteq> JNum 0"
    by (simp add: input_defs js_defs)
  have h: "connects production \<and> parses_body ?ev
      \<and> json_body ?ev = Some no_plate_no_service \<and> \<not> nullish no_plate_no_service"
    by (simp add: input_defs production_def handler_defs)
  from validation_accumulates[of no_plate_no_service production ?ev example_table "[]"] h f p
  have "validateAppointment no_plate_no_service = Inr [msg_plate, msg_service]"
    "violated no_plate_no_service = [PlateRule, ServiceRule]"
    "statusCode (reply (handler example_table production [] ?ev)) = 400"
    "body (reply (handler example_table production [] ?ev))
       = Json \<lparr> success = False, data = None, error = Some msg_invalid,
                details = Some (Messages [msg_plate, msg_service]), message = None \<rparr>"
    by simp_all
  with h show ?thesis
    by (simp add: details_of_def msg_plate_def msg_service_def)
qed

text \<open>
  C2 as the claim states it fails on the input null, which violates five of the rules
  and is answered with 500 and no list of messages, and on a period that is
  \<^verbatim>\<open>false\<close>, which is provided and is none of the two values, and is accepted.
\<close>

theorem null_body_is_not_validated:
  "violated JNull = [PlateRule, CarRule, ServiceRule, LocalityRule, StatusRule]
   \<and> statusCode (reply (handler example_table production []
        (request ''POST'' ''/appointments'' (Some JNull)))) = 500
   \<and> details_of (reply (handler example_table production []
        (request ''POST'' ''/appointments'' (Some JNull)))) = None
   \<and> statusCode (reply (handler example_table production []
        (request ''PUT'' ''/appointments/2'' (Some JNull)))) = 500
   \<and> violated period_false = [PeriodRule]
   \<and> validateAppointment period_false = Inr []
   \<and> statusCode (reply (handler example_table production []
        (request ''POST'' ''/appointments'' (Some period_false)))) = 201"
  by (simp add: input_defs spec_defs js_defs production_def handler_defs table_defs
      example_defs response_defs details_of_def)

text \<open>
  C3.  When the server answers, GET answers 200 with every row of the table, each as
  often as the table has it and none else, in the order of the specification: a row
  without date after every row with one, and the rows with dates by date, then by
  period, then by \<^verbatim>\<open>sort_index\<close>.  The table is as it was.
\<close>

theorem list_is_whole_and_ordered:
  assumes "connects env" and "answers env" and "httpMethod ev = str ''GET''"
  shows "\<exists>rs. statusCode (reply (handler T env rows ev)) = 200
           \<and> payload_of (reply (handler T env rows ev))
               = Some (Many (map (transformToFrontend T) rs))
           \<and> mset rs = mset rows
           \<and> sorted_wrt listed_before rs
           \<and> table (handler T env rows ev) = rows"
  using assms sorted_listed[of rows]
  by (intro exI[of _ "sort_key order_key rows"])
     (simp add: handler_GET ok_list_def payload_of_def)

theorem list_is_whole_and_ordered_witness:
  "connects production \<and> answers production
   \<and> httpMethod (request ''GET'' ''/appointments'' None) = str ''GET''
   \<and> (\<exists>rs. statusCode (reply (handler example_table production
                [unscheduled, afternoon, morning] (request ''GET'' ''/appointments'' None)))
              = 200
          \<and> payload_of (reply (handler example_table production
                [unscheduled, afternoon, morning] (request ''GET'' ''/appointments'' None)))
              = Some (Many (map (transformToFrontend example_table) rs))
          \<and> mset rs = mset [unscheduled, afternoon, morning]
          \<and> sorted_wrt listed_before rs)
   \<and> (\<exists>es. payload_of (reply (handler example_table production
                [unscheduled, afternoon, morning] (request ''GET'' ''/appointments'' None)))
              = Some (Many es)
          \<and> map e_id es = [3, 2, 1]
          \<and> map e_date es = [Some (str ''2024-05-01''), Some (str ''2024-05-01''), None]
          \<and> map e_period es
              = [Some (str (''Manh'' @ [CHR 0xE3])), Some (str ''Tarde''), None])"
proof -
  let ?ev = "request ''GET'' ''/appointments'' None"
  let ?rows = "[unscheduled, afternoon, morning]"
  have h: "connects production" "answers production" "httpMethod ?ev = str ''GET''"
    by (simp_all add: production_def request_def)
  have e: "\<exists>es. payload_of (reply (handler example_table production ?rows ?ev))
        = Some (Many es)
      \<and> map e_id es = [3, 2, 1]
      \<and> map e_date es = [Some (str ''2024-05-01''), Some (str ''2024-05-01''), None]
      \<and> map e_period es = [Some (str (''Manh'' @ [CHR 0xE3])), Some (str ''Tarde''), None]"
    by (simp only: handler_GET[OF h(1) h(3)] h(2) sorted_examples)
       (simp add: ok_list_def payload_of_def transformToFrontend_def row_defs example_defs
          str_def)
  with h list_is_whole_and_ordered[OF h, of example_table ?rows]
  show ?thesis
    by blast
qed

text \<open>
  C6.  A request that is answered with 400 has sent no statement at all, so neither an
  INSERT nor an UPDATE, and the table is as it was: the handler has opened the
  connection and closed it.
\<close>

theorem rejected_request_writes_nothing:
  assumes "statusCode (reply (handler T env rows ev)) = 400"
  shows "table (handler T env rows ev) = rows
       \<and> effects (handler T env rows ev) = [Connect, End]
       \<and> Query INSERT \<notin> set (effects (handler T env rows ev))
       \<and> Query UPDATE \<notin> set (effects (handler T env rows ev))"
proof -
  obtain res rows' stmts where sw: "switch T env rows ev = (res, rows', stmts)"
    by (cases "switch T env rows ev") auto
  show ?thesis
  proof (cases res)
    case (Inl e)
    with assms sw show ?thesis
      by (auto simp: handler_def internal_error_def split: if_splits)
  next
    case (Inr r)
    with assms sw switch_400[of T env rows ev r rows' stmts] show ?thesis
      by (auto simp: handler_def internal_error_def split: if_splits)
  qed
qed

theorem rejected_request_writes_nothing_witness:
  "statusCode (reply (handler example_table production [afternoon]
       (request ''POST'' ''/appointments'' (Some no_plate_no_service)))) = 400
   \<and> table (handler example_table production [afternoon]
       (request ''POST'' ''/appointments'' (Some no_plate_no_service))) = [afternoon]
   \<and> effects (handler example_table production [afternoon]
       (request ''POST'' ''/appointments'' (Some no_plate_no_service))) = [Connect, End]"
proof -
  let ?ev = "request ''POST'' ''/appointments'' (Some no_plate_no_service)"
  have "failed no_plate_no_service \<noteq> []"
    by (simp add: input_defs spec_defs js_defs)
  then have "reply (handler example_table production [afternoon] ?ev)
      = invalid (map rule_message (failed no_plate_no_service))"
    by (intro arg_cong[where f = reply, OF invalid_reply, simplified])
       (simp_all add: production_def parses_body_def request_def input_defs)
  then have "statusCode (reply (handler example_table production [afternoon] ?ev)) = 400"
    by (simp add: invalid_def)
  with rejected_request_writes_nothing[of example_table production "[afternoon]" ?ev]
  show ?thesis
    by simp
qed




text \<open>
  C9, as the handler has it.  On a request that is not OPTIONS the handler calls
  \<^verbatim>\<open>connectDB()\<close> once, first.  When that returns a connection, what the handler does
  to the outside is: open that one connection, send at most one statement, close the
  connection; so the connection is closed on every way out, after the last statement.
  When \<^verbatim>\<open>connectDB()\<close> throws, no connection has been opened and none is closed, and the
  answer is 500.
\<close>

theorem connection_scoped:
  assumes "httpMethod ev \<noteq> str ''OPTIONS''"
  shows "if connects env
         then \<exists>stmts. effects (handler T env rows ev) = [Connect] @ map Query stmts @ [End]
                 \<and> length stmts \<le> 1
         else effects (handler T env rows ev) = []
                 \<and> reply (handler T env rows ev) = internal_error env ConnectError"
proof -
  obtain res rows' stmts where sw: "switch T env rows ev = (res, rows', stmts)"
    by (cases "switch T env rows ev") auto
  with assms switch_stmts[OF sw] show ?thesis
    by (cases res) (auto simp: handler_def)
qed

theorem connection_scoped_witness:
  "httpMethod (request ''PATCH'' ''/appointments/2'' None) \<noteq> str ''OPTIONS''
   \<and> (\<exists>stmts. effects (handler example_table production [afternoon]
                  (request ''PATCH'' ''/appointments/2'' None))
                = [Connect] @ map Query stmts @ [End] \<and> length stmts \<le> 1)
   \<and> effects (handler example_table production [afternoon]
        (request ''PATCH'' ''/appointments/2'' None)) = [Connect, End]
   \<and> effects (handler example_table server_down [afternoon]
        (request ''PATCH'' ''/appointments/2'' None)) = []
   \<and> reply (handler example_table server_down [afternoon]
        (request ''PATCH'' ''/appointments/2'' None)) = internal_error server_down ConnectError"
proof -
  let ?ev = "request ''PATCH'' ''/appointments/2'' None"
  have h: "httpMethod ?ev \<noteq> str ''OPTIONS''" "connects production" "\<not> connects server_down"
    by (simp_all add: request_def production_def server_down_def)
  have "effects (handler example_table production [afternoon] ?ev) = [Connect, End]"
    by (simp add: request_def production_def handler_def switch_def)
  with h connection_scoped[OF h(1), of production example_table "[afternoon]"]
    connection_scoped[OF h(1), of server_down example_table "[afternoon]"]
  show ?thesis
    by simp
qed

text \<open>
  C9 as the claim states it fails when the server cannot be reached: the invocation
  opens no connection.
\<close>

theorem no_connection_when_server_down:
  "httpMethod (request ''DELETE'' ''/appointments/2'' None) \<noteq> str ''OPTIONS''
   \<and> effects (handler example_table server_down [afternoon]
        (request ''DELETE'' ''/appointments/2'' None)) = []
   \<and> count_list (effects (handler example_table server_down [afternoon]
        (request ''DELETE'' ''/appointments/2'' None))) Connect \<noteq> 1"
  by (simp add: request_def server_down_def handler_def)

text \<open>
  C10.  The handler reads the path on PUT and DELETE only: on every other method the
  outcome is the same whatever the path.  A GET never answers with a single entity;
  when the server answers, it answers with the whole table in the order of the list.
\<close>

theorem get_lists_whatever_the_path:
  "(httpMethod ev \<noteq> str ''PUT'' \<and> httpMethod ev \<noteq> str ''DELETE''
      \<longrightarrow> handler T env rows (ev\<lparr>path := p\<rparr>) = handler T env rows ev)
   \<and> (httpMethod ev = str ''GET''
      \<longrightarrow> payload_of (reply (handler T env rows (ev\<lparr>path := p\<rparr>))) \<noteq> Some (One e)
        \<and> (connects env \<and> answers env
            \<longrightarrow> (\<exists>rs. statusCode (reply (handler T env rows (ev\<lparr>path := p\<rparr>))) = 200
                    \<and> payload_of (reply (handler T env rows (ev\<lparr>path := p\<rparr>)))
                        = Some (Many (map (transformToFrontend T) rs))
                    \<and> mset rs = mset rows \<and> sorted_wrt listed_before rs)))"
proof -
  have "\<exists>rs. statusCode (reply (handler T env rows (ev\<lparr>path := p\<rparr>))) = 200
            \<and> payload_of (reply (handler T env rows (ev\<lparr>path := p\<rparr>)))
                = Some (Many (map (transformToFrontend T) rs))
            \<and> mset rs = mset rows \<and> sorted_wrt listed_before rs"
    if "httpMethod ev = str ''GET''" "connects env" "answers env"
    using that sorted_listed[of rows]
    by (intro exI[of _ "sort_key order_key rows"])
       (simp add: handler_GET ok_list_def payload_of_def)
  then show ?thesis
    using path_unused[of ev T env rows p] GET_never_one[of "ev\<lparr>path := p\<rparr>" T env rows e]
    by simp
qed

theorem get_lists_whatever_the_path_witness:
  "httpMethod (request ''GET'' ''/appointments'' None) = str ''GET''
   \<and> connects production \<and> answers production
   \<and> handler example_table production [unscheduled, afternoon, morning]
        (request ''GET'' ''/appointments/2'' None)
       = handler example_table production [unscheduled, afternoon, morning]
           (request ''GET'' ''/appointments'' None)
   \<and> statusCode (reply (handler example_table production [unscheduled, afternoon, morning]
        (request ''GET'' ''/appointments/2'' None))) = 200
   \<and> payload_of (reply (handler example_table production [unscheduled, afternoon, morning]
        (request ''GET'' ''/appointments/2'' None)))
       = Some (Many (map (transformToFrontend example_table) [morning, afternoon, unscheduled]))
   \<and> (\<exists>es. payload_of (reply (handler example_table production
                [unscheduled, afternoon, morning] (request ''GET'' ''/appointments/2'' None)))
              = Some (Many es)
          \<and> map e_id es = [3, 2, 1])
   \<and> payload_of (reply (handler example_table production [unscheduled, afternoon, morning]
        (request ''GET'' ''/appointments/2'' None)))
       \<noteq> Some (One (transformToFrontend example_table afternoon))"
proof -
  let ?ev = "request ''GET'' ''/appointments'' None"
  have p: "?ev\<lparr>path := str ''/appointments/2''\<rparr> = request ''GET'' ''/appointments/2'' None"
    by (simp add: request_def)
  have h: "httpMethod ?ev = str ''GET''" "connects production" "answers production"
    by (simp_all add: request_def production_def)
  have l: "reply (handler example_table production [unscheduled, afternoon, morning] ?ev)
      = ok_list (map (transformToFrontend example_table) [morning, afternoon, unscheduled])"
    by (simp only: handler_GET[OF h(2) h(1)] h(3) sorted_examples) simp
  have i: "map e_id (map (transformToFrontend example_table) [morning, afternoon, unscheduled])
      = [3, 2, 1]"
    by (simp add: transformToFrontend_def row_defs)
  from h l
    get_lists_whatever_the_path[of ?ev example_table production
      "[unscheduled, afternoon, morning]" "str ''/appointments/2''"
      "transformToFrontend example_table afternoon"]
  have "handler example_table production [unscheduled, afternoon, morning]
        (request ''GET'' ''/appointments/2'' None)
       = handler example_table production [unscheduled, afternoon, morning] ?ev"
    "payload_of (reply (handler example_table production [unscheduled, afternoon, morning]
        (request ''GET'' ''/appointments/2'' None)))
       \<noteq> Some (One (transformToFrontend example_table afternoon))"
    by (simp_all add: p payload_of_def ok_list_def)
  with h l i show ?thesis
    by (simp add: payload_of_def ok_list_def)
qed

text \<open>
  C1, as the handler has it.  A Create input without \<^verbatim>\<open>status\<close>, whose \<^verbatim>\<open>plate\<close>,
  \<^verbatim>\<open>car\<close>, \<^verbatim>\<open>service\<close> and \<^verbatim>\<open>locality\<close> are valid and whose \<^verbatim>\<open>period\<close>, if JavaScript
  counts it as true, is one of the two values, is rejected: the answer is 400 with the one message \<^verbatim>\<open>'Status inv\<close>\<open>\<dots>\<close>\<^verbatim>\<open>lido'\<close>,
  no statement is sent and the table is as it was.  \<^verbatim>\<open>transformToBackend\<close> would give
  such an input the status \<^verbatim>\<open>'NE'\<close>, but the handler does not get to it.
\<close>

theorem status_is_required:
  assumes "connects env" and "httpMethod ev = str ''POST''" and "json_body ev = Some d"
    and "js_get d ''status'' = JUndefined"
    and "rule_holds PlateRule d" and "rule_holds CarRule d" and "rule_holds ServiceRule d"
    and "rule_holds LocalityRule d" and "rule_passes PeriodRule d"
  shows "reply (handler T env rows ev) = invalid [msg_status]
       \<and> statusCode (reply (handler T env rows ev)) = 400
       \<and> details_of (reply (handler T env rows ev)) = Some (Messages [msg_status])
       \<and> table (handler T env rows ev) = rows
       \<and> effects (handler T env rows ev) = [Connect, End]
       \<and> (\<forall>upper b. transformToBackend upper d = Inr b \<longrightarrow> b_status b = JStr (str ''NE''))"
proof -
  have n: "\<not> nullish d"
    using assms(5) by (cases d) (simp_all add: nonempty_string_def)
  have v: "failed d = [StatusRule]"
    using assms(4-9) by (simp add: failed_def all_rules_def one_of_def)
  have p: "parses_body ev"
    using assms(2) by (simp add: parses_body_def)
  have "b_status b = JStr (str ''NE'')" if "transformToBackend upper d = Inr b" for upper b
    using backend_fields(10)[OF that] assms(4) by (simp add: js_or_def)
  with invalid_reply[OF assms(1) p assms(3) n, of T rows] v show ?thesis
    by (simp add: invalid_def details_of_def)
qed

theorem status_is_required_witness:
  "reply (handler example_table production [afternoon]
      (request ''POST'' ''/appointments'' (Some no_status))) = invalid [msg_status]
   \<and> table (handler example_table production [afternoon]
      (request ''POST'' ''/appointments'' (Some no_status))) = [afternoon]
   \<and> js_get no_status ''status'' = JUndefined
   \<and> rule_holds PlateRule no_status \<and> rule_holds CarRule no_status
   \<and> rule_holds ServiceRule no_status \<and> rule_holds LocalityRule no_status
   \<and> rule_passes PeriodRule no_status"
proof -
  let ?ev = "request ''POST'' ''/appointments'' (Some no_status)"
  have h: "connects production" "httpMethod ?ev = str ''POST''" "json_body ?ev = Some no_status"
    "js_get no_status ''status'' = JUndefined"
    "rule_holds PlateRule no_status" "rule_holds CarRule no_status"
    "rule_holds ServiceRule no_status" "rule_holds LocalityRule no_status"
    "rule_passes PeriodRule no_status"
    by (simp_all add: production_def request_def input_defs spec_defs js_defs)
  from status_is_required[OF h, of example_table "[afternoon]"] h show ?thesis
    by simp
qed

text \<open>
  C1 as the claim states it fails: Create on an input that lacks nothing but the
  \<^verbatim>\<open>status\<close> answers 400, not 201, and creates nothing.
\<close>

theorem create_without_status_is_rejected:
  "js_get no_status ''status'' = JUndefined
   \<and> violated no_status = [StatusRule]
   \<and> statusCode (reply (handler example_table production []
        (request ''POST'' ''/appointments'' (Some no_status)))) = 400
   \<and> table (handler example_table production []
        (request ''POST'' ''/appointments'' (Some no_status))) = []"
  by (simp add: production_def handler_defs input_defs spec_defs js_defs invalid_def)
text \<open>
  C8, as the handler has it.  The value that goes into \<^verbatim>\<open>sort_index\<close> is the supplied
  \<^verbatim>\<open>sortIndex\<close> unless JavaScript counts it as false (0, the empty string, false, null
  or absent), else the supplied \<^verbatim>\<open>sort_index\<close> unless it counts as false, else 1; the
  row that Create inserts and every row that Update changes hold what the column makes
  of that value.
\<close>

theorem sort_index_stored:
  "(transformToBackend upper d = Inr b \<longrightarrow> b_sort_index b = chosen_sort_index d)
   \<and> (connects env \<and> httpMethod ev = str ''POST'' \<and> json_body ev = Some d
        \<and> statusCode (reply (handler T env rows ev)) = 201
      \<longrightarrow> (\<exists>r n. table (handler T env rows ev) = rows @ [r]
             \<and> int_in T (chosen_sort_index d) = Some n \<and> r_sort_index r = Some n))
   \<and> (connects env \<and> httpMethod ev = str ''PUT'' \<and> json_body ev = Some d
        \<and> statusCode (reply (handler T env rows ev)) = 200
      \<longrightarrow> (\<exists>i n. id_in T (requested_id ev) = Some i
             \<and> int_in T (chosen_sort_index d) = Some n
             \<and> (\<forall>r\<in>set (table (handler T env rows ev)).
                   r_id r = i \<longrightarrow> r_sort_index r = Some n)))"
proof -
  have a: "b_sort_index b = chosen_sort_index d" if "transformToBackend upper d = Inr b"
    using backend_fields(11)[OF that] .
  have b: "\<exists>r n. table (handler T env rows ev) = rows @ [r]
             \<and> int_in T (chosen_sort_index d) = Some n \<and> r_sort_index r = Some n"
    if h: "connects env" "httpMethod ev = str ''POST''" "json_body ev = Some d"
      "statusCode (reply (handler T env rows ev)) = 201"
  proof -
    from POST_201[OF h(1,2,4)] h(3) obtain b f where
      k: "failed d = []" "transformToBackend (toUpperCase env) d = Inr b" "answers env"
        "set_columns T b = Some f"
      by auto
    from stored_sort_index[OF k(1,2,4)]
    obtain n where n: "int_in T (chosen_sort_index d) = Some n"
      "\<forall>r. r_sort_index (f r) = Some n"
      by blast
    have "table (handler T env rows ev) = rows @ [f (new_row env rows)]"
      by (simp add: POST_accepted[OF h(1,2,3) k, of rows])
    with n show ?thesis
      by blast
  qed
  have c: "\<exists>i n. id_in T (requested_id ev) = Some i
             \<and> int_in T (chosen_sort_index d) = Some n
             \<and> (\<forall>r\<in>set (table (handler T env rows ev)).
                   r_id r = i \<longrightarrow> r_sort_index r = Some n)"
    if h: "connects env" "httpMethod ev = str ''PUT''" "json_body ev = Some d"
      "statusCode (reply (handler T env rows ev)) = 200"
  proof -
    from PUT_200[OF h(1,2,4)] h(3) obtain b f i where
      k: "usable_id ev" "failed d = []" "transformToBackend (toUpperCase env) d = Inr b"
        "answers env"
        "set_columns T b = Some f" "id_in T (requested_id ev) = Some i"
      by auto
    from stored_sort_index[OF k(2,3,5)]
    obtain n where n: "int_in T (chosen_sort_index d) = Some n"
      "\<forall>r. r_sort_index (f r) = Some n"
      by blast
    have t: "table (handler T env rows ev) =
        map (\<lambda>r. if r_id r = i then (f r)\<lparr> r_updated_at := CURRENT_TIMESTAMP env \<rparr> else r) rows"
      by (simp add: PUT_accepted[OF h(1,2) k(1) h(3) k(2-6), of rows])
    have "r_sort_index r' = Some n"
      if m: "r' \<in> set (table (handler T env rows ev))" "r_id r' = i" for r'
    proof -
      from m(1) obtain r where
        r: "r' = (if r_id r = i then (f r)\<lparr> r_updated_at := CURRENT_TIMESTAMP env \<rparr> else r)"
        unfolding t set_map by blast
      show ?thesis
      proof (cases "r_id r = i")
        case True
        with r n(2) show ?thesis
          by simp
      next
        case False
        with r m(2) show ?thesis
          by simp
      qed
    qed
    with k(6) n(1) show ?thesis
      by blast
  qed
  from a b c show ?thesis
    by blast
qed

theorem sort_index_stored_witness:
  "(\<exists>b. transformToBackend ascii_upper basic_date = Inr b \<and> b_sort_index b = JNum 4)
   \<and> chosen_sort_index basic_date = JNum 4
   \<and> statusCode (reply (handler example_table production []
        (request ''POST'' ''/appointments'' (Some basic_date)))) = 201
   \<and> (\<exists>r. table (handler example_table production []
              (request ''POST'' ''/appointments'' (Some basic_date))) = [r]
          \<and> r_sort_index r = Some 4)
   \<and> statusCode (reply (handler example_table production [afternoon]
        (request ''PUT'' ''/appointments/2'' (Some basic_date)))) = 200
   \<and> (\<exists>r. table (handler example_table production [afternoon]
              (request ''PUT'' ''/appointments/2'' (Some basic_date))) = [r]
          \<and> r_id r = 2 \<and> r_sort_index r = Some 4)"
proof -
  let ?post = "request ''POST'' ''/appointments'' (Some basic_date)"
  let ?put = "request ''PUT'' ''/appointments/2'' (Some basic_date)"
  have c: "chosen_sort_index basic_date = JNum 4"
    by (simp add: chosen_sort_index_def input_defs)
  have i: "int_in example_table (JNum 4) = Some 4" "id_in example_table (str ''2'') = Some 2"
    "requested_id ?put = str ''2''"
    by (simp_all add: example_defs handler_defs str_def)
  have t: "\<exists>b. transformToBackend ascii_upper basic_date = Inr b"
    by (simp add: input_defs js_defs)
  have p: "connects production \<and> httpMethod ?post = str ''POST''
      \<and> json_body ?post = Some basic_date
      \<and> statusCode (reply (handler example_table production [] ?post)) = 201"
    by (simp add: input_defs js_defs production_def handler_defs table_defs example_defs
        ok_entity_def)
  have u: "connects production \<and> httpMethod ?put = str ''PUT''
      \<and> json_body ?put = Some basic_date
      \<and> statusCode (reply (handler example_table production [afternoon] ?put)) = 200"
    by (simp add: input_defs js_defs production_def handler_defs table_defs example_defs
        row_defs ok_entity_def)
  from t obtain b where b: "transformToBackend ascii_upper basic_date = Inr b"
    by blast
  from sort_index_stored[of ascii_upper basic_date b production ?post example_table "[]"] b c p i
  have 1: "b_sort_index b = JNum 4"
    "\<exists>r. table (handler example_table production [] ?post) = [r] \<and> r_sort_index r = Some 4"
    by auto
  from sort_index_stored[of ascii_upper basic_date b production ?put example_table "[afternoon]"]
    c u i
  have 2: "\<forall>r\<in>set (table (handler example_table production [afternoon] ?put)).
      r_id r = 2 \<longrightarrow> r_sort_index r = Some 4"
    by auto
  have "\<exists>r. table (handler example_table production [afternoon] ?put) = [r] \<and> r_id r = 2"
    by (simp add: input_defs js_defs production_def handler_defs table_defs example_defs
        row_defs)
  with 2 have 3: "\<exists>r. table (handler example_table production [afternoon] ?put) = [r]
      \<and> r_id r = 2 \<and> r_sort_index r = Some 4"
    by auto
  from b c p u 1 3 show ?thesis
    by blast
qed

text \<open>
  C8 as the claim states it fails on a supplied \<^verbatim>\<open>sortIndex\<close> of 0: the row is stored
  with \<^verbatim>\<open>sort_index\<close> 1.
\<close>

theorem sort_index_zero_is_replaced:
  "js_get zero_index ''sortIndex'' = JNum 0
   \<and> statusCode (reply (handler example_table production []
        (request ''POST'' ''/appointments'' (Some zero_index)))) = 201
   \<and> map r_sort_index (table (handler example_table production []
        (request ''POST'' ''/appointments'' (Some zero_index)))) = [Some 1]"
  by (simp add: input_defs js_defs production_def handler_defs table_defs example_defs
      ok_entity_def)

text \<open>
  C4, as the handler has it.  For every input on which Create answers 201, the entity
  that Create returns is that of the one row added to the table, under an \<^verbatim>\<open>id\<close> that
  no row had, and a List that follows contains it.  Its \<^verbatim>\<open>plate\<close> is the given one
  upper-cased and trimmed; \<^verbatim>\<open>car\<close> and \<^verbatim>\<open>locality\<close> are the given ones trimmed;
  \<^verbatim>\<open>notes\<close> and \<^verbatim>\<open>extra\<close> are the given ones trimmed, and null when absent or empty;
  \<^verbatim>\<open>service\<close>, \<^verbatim>\<open>status\<close> and \<^verbatim>\<open>period\<close> are as given, \<^verbatim>\<open>period\<close> null when none is
  given.  The \<^verbatim>\<open>date\<close> is null when none is given, and otherwise what
  \<^verbatim>\<open>toISOString()\<close> has before its \<^verbatim>\<open>T\<close> for the \<^verbatim>\<open>Date\<close> that the column and the driver
  have made of the given value.  That this is the given text is not part of the
  statement: it depends on the column and on how the driver builds the \<^verbatim>\<open>Date\<close>.
\<close>

theorem created_entity_is_normal_form:
  assumes "connects env" and "httpMethod ev = str ''POST''" and "json_body ev = Some d"
    and "statusCode (reply (handler T env rows ev)) = 201"
  shows "\<exists>r. payload_of (reply (handler T env rows ev))
             = Some (One (transformToFrontend T r))
         \<and> table (handler T env rows ev) = rows @ [r]
         \<and> e_id (transformToFrontend T r) \<notin> r_id ` set rows
         \<and> e_plate (transformToFrontend T r)
             = Some (trim (toUpperCase env (str_val (js_get d ''plate''))))
         \<and> e_car (transformToFrontend T r) = Some (trim (str_val (js_get d ''car'')))
         \<and> e_locality (transformToFrontend T r)
             = Some (trim (str_val (js_get d ''locality'')))
         \<and> e_service (transformToFrontend T r) = given_text (js_get d ''service'')
         \<and> e_status (transformToFrontend T r) = given_text (js_get d ''status'')
         \<and> e_notes (transformToFrontend T r) = optional_text (js_get d ''notes'')
         \<and> e_extra (transformToFrontend T r) = optional_text (js_get d ''extra'')
         \<and> e_period (transformToFrontend T r) = given_text (js_get d ''period'')
         \<and> (if truthy (js_get d ''date'')
             then \<exists>x. date_in T (js_get d ''date'') = Some x
                    \<and> e_date (transformToFrontend T r) = Some (shown_date T x)
             else e_date (transformToFrontend T r) = None)
         \<and> (\<forall>ev'. httpMethod ev' = str ''GET'' \<longrightarrow>
               (\<exists>es. statusCode (reply (handler T env (rows @ [r]) ev')) = 200
                  \<and> payload_of (reply (handler T env (rows @ [r]) ev')) = Some (Many es)
                  \<and> transformToFrontend T r \<in> set es))"
proof -
  from POST_201[OF assms(1,2,4)] assms(3) obtain b f where
    k: "failed d = []" "transformToBackend (toUpperCase env) d = Inr b" "answers env"
      "set_columns T b = Some f"
    by auto
  let ?r = "f (new_row env rows)"
  note sf = stored_fields[OF k(1,2,4), of "new_row env rows"]
  have h: "handler T env rows ev =
      \<lparr> reply = ok_entity 201 (transformToFrontend T ?r) msg_created,
        table = rows @ [?r], effects = [Connect, Query INSERT, End] \<rparr>"
    by (rule POST_accepted[OF assms(1,2,3) k])
  have i: "e_id (transformToFrontend T ?r) \<notin> r_id ` set rows"
    using fresh_id_new[of rows] columns_fields(11)[OF k(4), of "new_row env rows"]
    by (simp add: transformToFrontend_def new_row_def)
  have dt: "if truthy (js_get d ''date'')
      then \<exists>x. date_in T (js_get d ''date'') = Some x
             \<and> e_date (transformToFrontend T ?r) = Some (shown_date T x)
      else e_date (transformToFrontend T ?r) = None"
  proof (cases "truthy (js_get d ''date'')")
    case True
    with sf(9) obtain x where "date_in T (js_get d ''date'') = Some x" "r_date ?r = Some x"
      by (cases "date_in T (js_get d ''date'')") auto
    with True show ?thesis
      by (simp add: transformToFrontend_def shown_date_def)
  next
    case False
    with sf(9) show ?thesis
      by (simp add: transformToFrontend_def)
  qed
  have l: "\<forall>ev'. httpMethod ev' = str ''GET'' \<longrightarrow>
      (\<exists>es. statusCode (reply (handler T env (rows @ [?r]) ev')) = 200
         \<and> payload_of (reply (handler T env (rows @ [?r]) ev')) = Some (Many es)
         \<and> transformToFrontend T ?r \<in> set es)"
    using listed_after_create[OF assms(1) k(3)] by blast
  have e: "e_plate (transformToFrontend T ?r) = r_plate ?r"
    "e_car (transformToFrontend T ?r) = r_car ?r"
    "e_locality (transformToFrontend T ?r) = r_locality ?r"
    "e_service (transformToFrontend T ?r) = r_service ?r"
    "e_status (transformToFrontend T ?r) = r_status ?r"
    "e_notes (transformToFrontend T ?r) = r_notes ?r"
    "e_extra (transformToFrontend T ?r) = r_extra ?r"
    "e_period (transformToFrontend T ?r) = r_period ?r"
    by (simp_all add: transformToFrontend_def)
  have po: "payload_of (ok_entity 201 (transformToFrontend T ?r) msg_created)
      = Some (One (transformToFrontend T ?r))"
    by (simp add: ok_entity_def payload_of_def)
  show ?thesis
    apply (rule exI[of _ ?r])
    apply (simp only: h e sf(1-8) outcome.simps po)
    using i dt l apply blast
    done
qed

theorem created_entity_is_normal_form_witness:
  "connects production
   \<and> httpMethod (request ''POST'' ''/appointments'' (Some extended_date)) = str ''POST''
   \<and> json_body (request ''POST'' ''/appointments'' (Some extended_date)) = Some extended_date
   \<and> statusCode (reply (handler example_table production [afternoon]
        (request ''POST'' ''/appointments'' (Some extended_date)))) = 201
   \<and> (\<exists>r. payload_of (reply (handler example_table production [afternoon]
               (request ''POST'' ''/appointments'' (Some extended_date))))
             = Some (One (transformToFrontend example_table r))
          \<and> table (handler example_table production [afternoon]
               (request ''POST'' ''/appointments'' (Some extended_date))) = [afternoon, r]
          \<and> e_plate (transformToFrontend example_table r) = Some (str ''AB-12-CD'')
          \<and> e_car (transformToFrontend example_table r) = Some (str ''Golf'')
          \<and> e_notes (transformToFrontend example_table r) = Some (str ''fenda'')
          \<and> e_extra (transformToFrontend example_table r) = None
          \<and> e_period (transformToFrontend example_table r)
              = Some (str (''Manh'' @ [CHR 0xE3]))
          \<and> e_date (transformToFrontend example_table r) = Some (str ''2024-05-01'')
          \<and> (\<exists>es. statusCode (reply (handler example_table production [afternoon, r]
                      (request ''GET'' ''/appointments'' None))) = 200
                 \<and> payload_of (reply (handler example_table production [afternoon, r]
                      (request ''GET'' ''/appointments'' None))) = Some (Many es)
                 \<and> transformToFrontend example_table r \<in> set es))"
proof -
  let ?ev = "request ''POST'' ''/appointments'' (Some extended_date)"
  let ?get = "request ''GET'' ''/appointments'' None"
  have h: "connects production" "httpMethod ?ev = str ''POST''"
    "json_body ?ev = Some extended_date"
    "statusCode (reply (handler example_table production [afternoon] ?ev)) = 201"
    by (simp_all add: input_defs js_defs production_def handler_defs table_defs example_defs
        row_defs ok_entity_def)
  have n: "trim (toUpperCase production (str_val (js_get extended_date ''plate'')))
        = str ''AB-12-CD''"
    "trim (str_val (js_get extended_date ''car'')) = str ''Golf''"
    "optional_text (js_get extended_date ''notes'') = Some (str ''fenda'')"
    "optional_text (js_get extended_date ''extra'') = None"
    "given_text (js_get extended_date ''period'') = Some (str (''Manh'' @ [CHR 0xE3]))"
    "truthy (js_get extended_date ''date'')"
    "date_in example_table (js_get extended_date ''date'') = Some (2024, 5, 1)"
    "shown_date example_table (2024, 5, 1) = str ''2024-05-01''"
    by (simp_all add: input_defs js_defs optional_text_def given_text_def shown_date_def
        example_defs production_def)
  from created_entity_is_normal_form[OF h] obtain r where
    r: "payload_of (reply (handler example_table production [afternoon] ?ev))
          = Some (One (transformToFrontend example_table r))"
      "table (handler example_table production [afternoon] ?ev) = [afternoon] @ [r]"
      "e_plate (transformToFrontend example_table r)
         = Some (trim (toUpperCase production (str_val (js_get extended_date ''plate''))))"
      "e_car (transformToFrontend example_table r)
         = Some (trim (str_val (js_get extended_date ''car'')))"
      "e_notes (transformToFrontend example_table r)
         = optional_text (js_get extended_date ''notes'')"
      "e_extra (transformToFrontend example_table r)
         = optional_text (js_get extended_date ''extra'')"
      "e_period (transformToFrontend example_table r)
         = given_text (js_get extended_date ''period'')"
      "if truthy (js_get extended_date ''date'')
       then \<exists>x. date_in example_table (js_get extended_date ''date'') = Some x
              \<and> e_date (transformToFrontend example_table r) = Some (shown_date example_table x)
       else e_date (transformToFrontend example_table r) = None"
      "\<forall>ev'. httpMethod ev' = str ''GET'' \<longrightarrow>
         (\<exists>es. statusCode (reply (handler example_table production ([afternoon] @ [r]) ev'))
                 = 200
            \<and> payload_of (reply (handler example_table production ([afternoon] @ [r]) ev'))
                 = Some (Many es)
            \<and> transformToFrontend example_table r \<in> set es)"
    by blast
  from r(8) n(6,7,8) have d: "e_date (transformToFrontend example_table r)
      = Some (str ''2024-05-01'')"
    by simp
  have "httpMethod ?get = str ''GET''"
    by (simp add: request_def)
  with r(9) have l: "\<exists>es.
        statusCode (reply (handler example_table production [afternoon, r] ?get)) = 200
      \<and> payload_of (reply (handler example_table production [afternoon, r] ?get))
          = Some (Many es)
      \<and> transformToFrontend example_table r \<in> set es"
    by simp
  from r(1-7) n(1-5) h d l show ?thesis
    by (intro conjI exI[of _ r]) simp_all
qed

text \<open>
  C4 as the claim states it fails on the \<^verbatim>\<open>date\<close>: given in the basic form of ISO
  8601, which the column of the example reads, it comes back in the extended form.
\<close>

theorem basic_date_comes_back_extended:
  "js_get basic_date ''date'' = JStr (str ''20240501'')
   \<and> payload_of (reply (handler example_table production []
        (request ''POST'' ''/appointments'' (Some basic_date))))
       = Some (One \<lparr> e_id = 1, e_date = Some (str ''2024-05-01''),
                      e_period = Some (str ''Tarde''), e_plate = Some (str ''AB-12-CD''),
                      e_car = Some (str ''Golf''), e_service = Some (str ''PB''),
                      e_locality = Some (str ''Braga''), e_status = Some (str ''VE''),
                      e_notes = None, e_extra = Some (str ''vidro''),
                      e_sortIndex = Some 4, e_createdAt = 7, e_updatedAt = 7 \<rparr>)"
  by (simp add: input_defs js_defs production_def handler_defs table_defs example_defs
      ok_entity_def payload_of_def)




end
